theory Spec2Isabelle
  imports Complex_Main "HOL-Library.Sublist"
begin

section \<open>Grapevine MCP: the tool adapter over the Staffbase client\<close>

text \<open>
  A shallow embedding of \<^verbatim>\<open>grapevine_mcp/server.py\<close> and
  \<^verbatim>\<open>grapevine_mcp/staffbase_client.py\<close>. Python values that travel through the
  adapter are JSON values (what \<^verbatim>\<open>resp.json()\<close> returns and what the tool
  arguments hold); a raised exception is the left summand of a result; the outbound HTTP
  requests and the log records are collected in a list of events; the upstream service is
  a parameter, a function from the request to what \<^verbatim>\<open>_get\<close> returns or raises.
\<close>

subsection \<open>Python values\<close>

text \<open>
  A dictionary is an association list in insertion order; its keys are distinct in Python,
  and a lookup takes the first binding. The elements of a \<open>string\<close> stand for the
  characters of a Python \<^verbatim>\<open>str\<close>. A float is its real value (truth-testing is all
  the adapter does with one).
\<close>

datatype json =
    JNull
  | JBool bool
  | JInt int
  | JFloat real
  | JStr string
  | JList "json list"
  | JDict "(string \<times> json) list"

text \<open>
  The exceptions the dispatch can raise, all of them subclasses of \<^verbatim>\<open>Exception\<close>,
  each with its message. A \<^verbatim>\<open>RecursionError\<close> is what the interpreter raises for a
  call when its recursion limit leaves no frame. The last three come from the HTTP library:
  a transport failure, a status outside 2xx (\<^verbatim>\<open>raise_for_status\<close>) and a body that
  is not JSON.
\<close>

datatype exn =
    RuntimeError string
  | KeyError string
  | TypeError string
  | AttributeError string
  | RecursionError string
  | TransportError string
  | HTTPStatusError string
  | JSONDecodeError string

text \<open>A string between single quotes, as the interpreter's messages show a name.\<close>

definition quoted :: "string \<Rightarrow> string" where
  "quoted s = [CHR 0x27] @ s @ [CHR 0x27]"

text \<open>\<^verbatim>\<open>str(exc)\<close>: the message; a \<^verbatim>\<open>KeyError\<close> shows the repr of its key.\<close>

fun str_exc :: "exn \<Rightarrow> string" where
  "str_exc (RuntimeError m) = m"
| "str_exc (KeyError k) = quoted k"
| "str_exc (TypeError m) = m"
| "str_exc (AttributeError m) = m"
| "str_exc (RecursionError m) = m"
| "str_exc (TransportError m) = m"
| "str_exc (HTTPStatusError m) = m"
| "str_exc (JSONDecodeError m) = m"

fun type_name :: "json \<Rightarrow> string" where
  "type_name JNull = ''NoneType''"
| "type_name (JBool b) = ''bool''"
| "type_name (JInt i) = ''int''"
| "type_name (JFloat r) = ''float''"
| "type_name (JStr s) = ''str''"
| "type_name (JList xs) = ''list''"
| "type_name (JDict kvs) = ''dict''"

text \<open>Truth value testing, as in \<^verbatim>\<open>if x:\<close> and \<^verbatim>\<open>x or y\<close>.\<close>

fun truthy :: "json \<Rightarrow> bool" where
  "truthy JNull = False"
| "truthy (JBool b) = b"
| "truthy (JInt i) = (i \<noteq> 0)"
| "truthy (JFloat r) = (r \<noteq> 0)"
| "truthy (JStr s) = (s \<noteq> [])"
| "truthy (JList xs) = (xs \<noteq> [])"
| "truthy (JDict kvs) = (kvs \<noteq> [])"

definition py_or :: "json \<Rightarrow> json \<Rightarrow> json" where
  "py_or a b = (if truthy a then a else b)"

text \<open>
  \<^verbatim>\<open>obj.get(key, default)\<close>: only a dictionary has the method. The keys of a JSON
  dictionary are strings, so a key of another hashable type is never found; a list or a
  dictionary is not hashable.
\<close>

fun py_get :: "json \<Rightarrow> json \<Rightarrow> json \<Rightarrow> exn + json" where
  "py_get (JDict kvs) (JStr k) d = Inr (case map_of kvs k of None \<Rightarrow> d | Some v \<Rightarrow> v)"
| "py_get (JDict kvs) (JList xs) d = Inl (TypeError (''unhashable type: '' @ quoted ''list''))"
| "py_get (JDict kvs) (JDict xs) d = Inl (TypeError (''unhashable type: '' @ quoted ''dict''))"
| "py_get (JDict kvs) k d = Inr d"
| "py_get obj k d =
     Inl (AttributeError (quoted (type_name obj) @ '' object has no attribute '' @ quoted ''get''))"

text \<open>\<^verbatim>\<open>obj[key]\<close> with a string key, as in \<^verbatim>\<open>s["id"]\<close>.\<close>

fun py_getitem :: "json \<Rightarrow> string \<Rightarrow> exn + json" where
  "py_getitem (JDict kvs) k = (case map_of kvs k of None \<Rightarrow> Inl (KeyError k) | Some v \<Rightarrow> Inr v)"
| "py_getitem (JList xs) k = Inl (TypeError ''list indices must be integers or slices, not str'')"
| "py_getitem (JStr s) k = Inl (TypeError (''string indices must be integers, not '' @ quoted ''str''))"
| "py_getitem obj k = Inl (TypeError (quoted (type_name obj) @ '' object is not subscriptable''))"

text \<open>
  Iteration, as \<^verbatim>\<open>for x in obj\<close> and \<^verbatim>\<open>iter(obj)\<close> see it: the elements of a
  list, the keys of a dictionary, the characters of a string.
\<close>

fun py_iter :: "json \<Rightarrow> exn + json list" where
  "py_iter (JList xs) = Inr xs"
| "py_iter (JDict kvs) = Inr (map (\<lambda>kv. JStr (fst kv)) kvs)"
| "py_iter (JStr s) = Inr (map (\<lambda>c. JStr [c]) s)"
| "py_iter obj = Inl (TypeError (quoted (type_name obj) @ '' object is not iterable''))"

text \<open>\<^verbatim>\<open>next(iter(obj), None)\<close>\<close>

definition next_iter :: "json \<Rightarrow> exn + json" where
  "next_iter obj =
     (case py_iter obj of
        Inl e \<Rightarrow> Inl e
      | Inr xs \<Rightarrow> Inr (case xs of [] \<Rightarrow> JNull | x # _ \<Rightarrow> x))"

text \<open>
  \<^verbatim>\<open>xs[:n]\<close> on a list: \<^verbatim>\<open>None\<close> keeps all of it, a negative bound counts from
  the end, a \<^verbatim>\<open>bool\<close> is an integer, anything else is not a slice index.
\<close>

fun slice_to :: "'a list \<Rightarrow> json \<Rightarrow> exn + 'a list" where
  "slice_to xs JNull = Inr xs"
| "slice_to xs (JInt n) =
     Inr (if 0 \<le> n then take (nat n) xs else take (length xs - nat (- n)) xs)"
| "slice_to xs (JBool b) = Inr (take (if b then 1 else 0) xs)"
| "slice_to xs n =
     Inl (TypeError ''slice indices must be integers or None or have an __index__ method'')"

text \<open>
  \<^verbatim>\<open>obj[:n]\<close> with a literal bound \<open>n\<close>: a string and a list are cut; a dictionary
  cannot take a slice as a key (the \<^verbatim>\<open>TypeError\<close> of Python up to 3.11).
\<close>

fun py_prefix :: "json \<Rightarrow> nat \<Rightarrow> exn + json" where
  "py_prefix (JStr s) n = Inr (JStr (take n s))"
| "py_prefix (JList xs) n = Inr (JList (take n xs))"
| "py_prefix (JDict kvs) n = Inl (TypeError (''unhashable type: '' @ quoted ''slice''))"
| "py_prefix obj n = Inl (TypeError (quoted (type_name obj) @ '' object is not subscriptable''))"

text \<open>\<^verbatim>\<open>data.get("data", data) if isinstance(data, dict) else data\<close>\<close>

fun unwrap :: "json \<Rightarrow> json" where
  "unwrap (JDict kvs) = (case map_of kvs ''data'' of None \<Rightarrow> JDict kvs | Some v \<Rightarrow> v)"
| "unwrap data = data"

text \<open>
  An f-string is the list of its pieces: literal text, and \<^verbatim>\<open>str(v)\<close> of an
  interpolated value that is not a string, which is left uninterpreted. An interpolated
  string is literal text; adjacent literals are joined.
\<close>

datatype piece = Lit string | Str json

fun interp :: "json \<Rightarrow> piece" where
  "interp (JStr s) = Lit s"
| "interp v = Str v"

fun fstring :: "piece list \<Rightarrow> piece list" where
  "fstring [] = []"
| "fstring (Str v # ps) = Str v # fstring ps"
| "fstring (Lit s # ps) =
     (case fstring ps of
        Lit t # qs \<Rightarrow> Lit (s @ t) # qs
      | qs \<Rightarrow> Lit s # qs)"

text \<open>
  \<^verbatim>\<open>json.dumps(obj, indent=..., default=...)\<close> is the library's; a text is kept as
  the value it serialises, with the indentation and whether \<^verbatim>\<open>default=str\<close> was given.
\<close>

datatype dumped = json_dumps (obj: json) (indent: "nat option") (default_str: bool)

datatype text_content = TextContent (content_type: string) (content_text: dumped)

subsection \<open>The upstream client (staffbase\_client.py)\<close>

record request =
  url :: "piece list"
  headers :: "(string \<times> string) list"
  params :: "(string \<times> json) list option"
  timeout :: real

datatype event = HttpGet request | LogException string

type_synonym upstream = "request \<Rightarrow> exn + json"

record StaffbaseClient =
  base_url :: string
  client_headers :: "(string \<times> string) list"
  client_timeout :: real

definition DEFAULT_TIMEOUT :: real where
  "DEFAULT_TIMEOUT = 30"

text \<open>\<^verbatim>\<open>s.rstrip("/")\<close>\<close>

definition rstrip_slash :: "string \<Rightarrow> string" where
  "rstrip_slash s = rev (dropWhile (\<lambda>c. c = CHR ''/'') (rev s))"

definition new_client :: "string \<Rightarrow> string \<Rightarrow> StaffbaseClient" where
  "new_client base api_key =
     \<lparr>base_url = rstrip_slash base,
      client_headers = [(''Authorization'', ''Basic '' @ api_key)],
      client_timeout = DEFAULT_TIMEOUT\<rparr>"

text \<open>
  \<^verbatim>\<open>_get\<close>: one authenticated GET. The upstream decides what comes back: the parsed
  body, or the exception of the transport, of \<^verbatim>\<open>raise_for_status\<close> or of the parser.
\<close>

definition client_get ::
  "upstream \<Rightarrow> StaffbaseClient \<Rightarrow> piece list \<Rightarrow> (string \<times> json) list option
     \<Rightarrow> event list \<times> (exn + json)" where
  "client_get up self path ps =
     (let req = \<lparr>url = fstring (Lit (base_url self) # path),
                 headers = client_headers self,
                 params = ps,
                 timeout = client_timeout self\<rparr>
      in ([HttpGet req], up req))"

text \<open>Post-processing of what a request returned; an exception passes through.\<close>

definition then_pure ::
  "event list \<times> (exn + 'a) \<Rightarrow> ('a \<Rightarrow> exn + 'b) \<Rightarrow> event list \<times> (exn + 'b)" where
  "then_pure r f =
     (case r of
        (evs, Inl e) \<Rightarrow> (evs, Inl e)
      | (evs, Inr x) \<Rightarrow> (evs, f x))"

text \<open>
  The methods take their keyword arguments in the order of the source; the adapter leaves
  \<^verbatim>\<open>include_hidden\<close> and \<^verbatim>\<open>offset\<close> at their defaults, \<open>True\<close> and \<open>0\<close>.
  \<^verbatim>\<open>str(include_hidden).lower()\<close> is \<^verbatim>\<open>"true"\<close> or \<^verbatim>\<open>"false"\<close>.
\<close>

definition list_spaces ::
  "upstream \<Rightarrow> StaffbaseClient \<Rightarrow> bool \<Rightarrow> event list \<times> (exn + json)" where
  "list_spaces up self include_hidden =
     then_pure (client_get up self [Lit ''/api/spaces'']
                  (Some [(''includeHidden'',
                          JStr (if include_hidden then ''true'' else ''false''))]))
       (\<lambda>data. Inr (unwrap data))"

definition get_global_posts ::
  "upstream \<Rightarrow> StaffbaseClient \<Rightarrow> json \<Rightarrow> json \<Rightarrow> event list \<times> (exn + json)" where
  "get_global_posts up self limit offset =
     then_pure (client_get up self [Lit ''/api/posts'']
                  (Some [(''limit'', limit), (''offset'', offset)]))
       (\<lambda>data. Inr (unwrap data))"

definition get_channel_posts ::
  "upstream \<Rightarrow> StaffbaseClient \<Rightarrow> json \<Rightarrow> json \<Rightarrow> json \<Rightarrow> event list \<times> (exn + json)" where
  "get_channel_posts up self channel_id limit offset =
     client_get up self [Lit ''/api/channels/'', interp channel_id, Lit ''/posts'']
       (Some [(''limit'', limit), (''offset'', offset)])"

definition get_page :: "upstream \<Rightarrow> StaffbaseClient \<Rightarrow> json \<Rightarrow> event list \<times> (exn + json)" where
  "get_page up self page_id = client_get up self [Lit ''/api/pages/'', interp page_id] None"

definition search ::
  "upstream \<Rightarrow> StaffbaseClient \<Rightarrow> json \<Rightarrow> json \<Rightarrow> event list \<times> (exn + json)" where
  "search up self query limit =
     client_get up self [Lit ''/api/search''] (Some [(''q'', query), (''limit'', limit)])"

definition get_space_news ::
  "upstream \<Rightarrow> StaffbaseClient \<Rightarrow> json \<Rightarrow> event list \<times> (exn + json)" where
  "get_space_news up self space_id =
     then_pure (client_get up self [Lit ''/api/spaces/'', interp space_id, Lit ''/news''] None)
       (\<lambda>data. Inr (unwrap data))"

subsection \<open>The tool adapter (server.py)\<close>

text \<open>Sequencing of steps that may raise: the first exception ends the evaluation.\<close>

fun bind_exn :: "exn + 'a \<Rightarrow> ('a \<Rightarrow> exn + 'b) \<Rightarrow> exn + 'b" where
  "bind_exn (Inl e) f = Inl e"
| "bind_exn (Inr x) f = f x"

lemma bind_exn_cong [fundef_cong]:
  "m = m' \<Longrightarrow> (\<And>x. m' = Inr x \<Longrightarrow> f x = f' x) \<Longrightarrow> bind_exn m f = bind_exn m' f'"
  by (cases m') simp_all

text \<open>
  A comprehension \<^verbatim>\<open>[f(x) for x in xs]\<close>, and the loop that appends \<^verbatim>\<open>f(x)\<close> to
  an empty list for each \<open>x\<close>: the elements in order, up to the first exception.
\<close>

fun map_exn :: "('a \<Rightarrow> exn + 'b) \<Rightarrow> 'a list \<Rightarrow> exn + 'b list" where
  "map_exn f [] = Inr []"
| "map_exn f (x # xs) = bind_exn (f x) (\<lambda>y. bind_exn (map_exn f xs) (\<lambda>ys. Inr (y # ys)))"

text \<open>\<^verbatim>\<open>d.get(k, default)\<close> on a dictionary known to be one, such as \<^verbatim>\<open>arguments\<close>.\<close>

definition dict_get :: "(string \<times> json) list \<Rightarrow> string \<Rightarrow> json \<Rightarrow> json" where
  "dict_get kvs k d = (case map_of kvs k of None \<Rightarrow> d | Some v \<Rightarrow> v)"

type_synonym environ = "string \<rightharpoonup> string"

definition environ_get :: "environ \<Rightarrow> string \<Rightarrow> string \<Rightarrow> string" where
  "environ_get env k d = (case env k of None \<Rightarrow> d | Some v \<Rightarrow> v)"

definition get_client :: "environ \<Rightarrow> exn + StaffbaseClient" where
  "get_client env =
     (let base = environ_get env ''STAFFBASE_URL'' [];
          api_key = environ_get env ''STAFFBASE_API_KEY'' []
      in if base = [] \<or> api_key = []
         then Inl (RuntimeError
                ''STAFFBASE_URL and STAFFBASE_API_KEY environment variables are required.'')
         else Inr (new_client base api_key))"

text \<open>The dictionary \<^verbatim>\<open>_extract_channels\<close> appends for an item of type "news".\<close>

definition channel_entry :: "json \<Rightarrow> exn + json" where
  "channel_entry item =
     bind_exn (py_get item (JStr ''contents'') (JDict [])) (\<lambda>contents.
     bind_exn (next_iter contents) (\<lambda>locale.
     bind_exn (if truthy locale
               then bind_exn (py_get contents locale (JDict []))
                      (\<lambda>localized. py_get localized (JStr ''title'') (JStr []))
               else Inr (JStr [])) (\<lambda>title.
     bind_exn (if truthy title then Inr title
               else py_get item (JStr ''title'') (JStr [])) (\<lambda>name.
     bind_exn (py_get item (JStr ''id'') (JStr [])) (\<lambda>ident.
     bind_exn (py_get item (JStr ''installationID'') ident) (\<lambda>installation_id.
     Inr (JDict [(''name'', name), (''installation_id'', installation_id)])))))))"

text \<open>
  \<^verbatim>\<open>_extract_channels(items, result)\<close> and its loop over the items. The list
  \<open>result\<close> is mutated in place by the source and shared with the recursive calls; here
  it is passed on and returned. The function calls itself once for each level of children,
  with no guard, and every call takes a frame of the interpreter's stack: \<open>frames\<close> is
  the number of calls the recursion limit still allows, and a call with none left raises
  \<^verbatim>\<open>RecursionError\<close>.
\<close>

function extract_channels :: "nat \<Rightarrow> json \<Rightarrow> json list option \<Rightarrow> exn + json list"
  and extract_for :: "nat \<Rightarrow> json list \<Rightarrow> json list \<Rightarrow> exn + json list"
where
  "extract_channels 0 items result =
     Inl (RecursionError ''maximum recursion depth exceeded'')"
| "extract_channels (Suc frames) items result =
     bind_exn (py_iter items)
       (\<lambda>xs. extract_for frames xs (case result of None \<Rightarrow> [] | Some r \<Rightarrow> r))"
| "extract_for frames [] result = Inr result"
| "extract_for frames (item # rest) result =
     bind_exn (py_get item (JStr ''type'') JNull) (\<lambda>ty.
     bind_exn (if ty = JStr ''news''
               then bind_exn (channel_entry item) (\<lambda>d. Inr (result @ [d]))
               else Inr result) (\<lambda>result1.
     bind_exn (py_get item (JStr ''children'') (JList [])) (\<lambda>children.
     bind_exn (if truthy children then extract_channels frames children (Some result1)
               else Inr result1) (\<lambda>result2.
     extract_for frames rest result2))))"
  by pat_completeness auto

text \<open>
  The recursion ends: a recursive call has a frame less, and the loop goes down the list.
\<close>

termination extract_channels
  by (relation "inv_image (less_than <*lex*> less_than)
      (\<lambda>x. case x of Inl (frames, items, r) \<Rightarrow> (2 * frames, 0)
                   | Inr (frames, xs, r) \<Rightarrow> (2 * frames + 1, length xs))")
     auto

lemma size_map_of: "map_of kvs k = Some v \<Longrightarrow> size v < size (JDict kvs)"
  by (induction kvs) (auto split: if_splits)

text \<open>The projection of one space in \<^verbatim>\<open>list_spaces\<close>.\<close>

definition space_entry :: "json \<Rightarrow> exn + json" where
  "space_entry s =
     bind_exn (py_getitem s ''id'') (\<lambda>ident.
     bind_exn (py_get s (JStr ''name'') (JStr [])) (\<lambda>name.
     Inr (JDict [(''id'', ident), (''name'', name)])))"

text \<open>The dictionary \<^verbatim>\<open>get_news\<close> appends for a post \<open>p\<close>.\<close>

definition news_entry :: "json \<Rightarrow> exn + json" where
  "news_entry p =
     bind_exn (py_get p (JStr ''contents'') (JDict [])) (\<lambda>contents.
     bind_exn (next_iter contents) (\<lambda>locale.
     bind_exn (if truthy locale then py_get contents locale (JDict [])
               else Inr (JDict [])) (\<lambda>localized.
     bind_exn (py_get p (JStr ''id'') (JStr [])) (\<lambda>ident.
     bind_exn (py_get localized (JStr ''title'') (JStr [])) (\<lambda>title.
     bind_exn (py_get localized (JStr ''teaser'') (JStr [])) (\<lambda>teaser.
     bind_exn (py_prefix teaser 200) (\<lambda>teaser200.
     bind_exn (py_get p (JStr ''publishedAt'') (JStr [])) (\<lambda>published.
     Inr (JDict [(''id'', ident), (''title'', title), (''teaser'', teaser200),
                 (''published'', published),
                 (''locale'', py_or locale (JStr []))])))))))))"

text \<open>The dictionary \<^verbatim>\<open>get_page\<close> serialises for a page.\<close>

definition page_entry :: "json \<Rightarrow> exn + json" where
  "page_entry page =
     bind_exn (py_get page (JStr ''contents'') (JDict [])) (\<lambda>contents.
     bind_exn (next_iter contents) (\<lambda>locale.
     bind_exn (if truthy locale then py_get contents locale (JDict [])
               else Inr (JDict [])) (\<lambda>localized.
     bind_exn (py_get page (JStr ''id'') (JStr [])) (\<lambda>ident.
     bind_exn (py_get localized (JStr ''title'') (JStr [])) (\<lambda>title.
     bind_exn (py_get localized (JStr ''content'') (JStr [])) (\<lambda>content.
     bind_exn (py_prefix content 5000) (\<lambda>content5000.
     bind_exn (py_get page (JStr ''updatedAt'') (JStr [])) (\<lambda>updated.
     Inr (JDict [(''id'', ident), (''title'', title), (''content'', content5000),
                 (''locale'', py_or locale (JStr [])),
                 (''updated'', updated)])))))))))"

text \<open>
  \<^verbatim>\<open>_handle_tool(name, arguments)\<close>: the events it caused, and the text it returns
  or the exception it raises. The client is built before the name is looked at.
  \<open>frames\<close> is the number of calls the interpreter's recursion limit allows where
  \<^verbatim>\<open>_handle_tool\<close> calls \<^verbatim>\<open>_extract_channels\<close>, the one recursive function.
\<close>

definition handle_tool ::
  "nat \<Rightarrow> environ \<Rightarrow> upstream \<Rightarrow> string \<Rightarrow> (string \<times> json) list
     \<Rightarrow> event list \<times> (exn + dumped)" where
  "handle_tool frames env up name arguments =
     (case get_client env of
        Inl e \<Rightarrow> ([], Inl e)
      | Inr client \<Rightarrow>
          if name = ''list_spaces'' then
            then_pure (list_spaces up client True) (\<lambda>spaces.
              bind_exn (py_iter spaces) (\<lambda>ss.
              bind_exn (map_exn space_entry ss) (\<lambda>result.
              Inr (json_dumps (JList result) (Some 2) False))))
          else if name = ''get_news'' then
            (let channel_id = dict_get arguments ''channel_id'' JNull;
                 limit = dict_get arguments ''limit'' (JInt 10)
             in then_pure
                  (if truthy channel_id
                   then then_pure (get_channel_posts up client channel_id limit (JInt 0))
                          (\<lambda>data. Inr (unwrap data))
                   else get_global_posts up client limit (JInt 0))
                  (\<lambda>posts.
                     bind_exn (case posts of JList xs \<Rightarrow> slice_to xs limit | _ \<Rightarrow> Inr [])
                       (\<lambda>ps.
                     bind_exn (map_exn news_entry ps) (\<lambda>result.
                     Inr (json_dumps (JList result) (Some 2) False)))))
          else if name = ''list_channels'' then
            (case py_getitem (JDict arguments) ''space_id'' of
               Inl e \<Rightarrow> ([], Inl e)
             | Inr space_id \<Rightarrow>
                 then_pure (get_space_news up client space_id) (\<lambda>news.
                   bind_exn (extract_channels frames news None) (\<lambda>channels.
                   Inr (json_dumps (JList channels) (Some 2) False))))
          else if name = ''get_page'' then
            (case py_getitem (JDict arguments) ''page_id'' of
               Inl e \<Rightarrow> ([], Inl e)
             | Inr page_id \<Rightarrow>
                 then_pure (get_page up client page_id) (\<lambda>page.
                   bind_exn (page_entry page) (\<lambda>d.
                   Inr (json_dumps d (Some 2) False))))
          else if name = ''search'' then
            (case py_getitem (JDict arguments) ''query'' of
               Inl e \<Rightarrow> ([], Inl e)
             | Inr query \<Rightarrow>
                 (let limit = dict_get arguments ''limit'' (JInt 10)
                  in then_pure (search up client query limit) (\<lambda>data.
                       Inr (json_dumps data (Some 2) True))))
          else
            ([], Inr (json_dumps (JDict [(''error'', JStr (''Unknown tool: '' @ name))])
                        None False)))"

text \<open>
  \<^verbatim>\<open>call_tool\<close>: the boundary. An exception of the dispatch is logged and turned into
  the text of \<^verbatim>\<open>{"error": str(exc)}\<close>.
\<close>

definition call_tool ::
  "nat \<Rightarrow> environ \<Rightarrow> upstream \<Rightarrow> string \<Rightarrow> (string \<times> json) list
     \<Rightarrow> event list \<times> text_content list" where
  "call_tool frames env up name arguments =
     (case handle_tool frames env up name arguments of
        (evs, Inr result) \<Rightarrow> (evs, [TextContent ''text'' result])
      | (evs, Inl exc) \<Rightarrow>
          (evs @ [LogException (''Tool '' @ name @ '' failed'')],
           [TextContent ''text''
              (json_dumps (JDict [(''error'', JStr (str_exc exc))]) None False)]))"

text \<open>The HTTP requests among the events.\<close>

fun http_calls :: "event list \<Rightarrow> request list" where
  "http_calls [] = []"
| "http_calls (HttpGet r # evs) = r # http_calls evs"
| "http_calls (LogException m # evs) = http_calls evs"

subsection \<open>The tool catalog\<close>

record Tool =
  tool_name :: string
  description :: string
  inputSchema :: json

definition TOOLS :: "Tool list" where
  "TOOLS =
     [\<lparr>tool_name = ''list_spaces'',
       description = ''List all Staffbase spaces (locations / sub-instances).'',
       inputSchema = JDict [(''type'', JStr ''object''), (''properties'', JDict [])]\<rparr>,
      \<lparr>tool_name = ''get_news'',
       description =
         ''Fetch recent news posts. Without a channel_id, returns global posts. '' @
         ''With a channel_id (installation ID), returns posts from that local channel.'',
       inputSchema = JDict
         [(''type'', JStr ''object''),
          (''properties'', JDict
             [(''channel_id'', JDict
                 [(''type'', JStr ''string''),
                  (''description'', JStr ''Optional channel installation ID for local news.'')]),
              (''limit'', JDict
                 [(''type'', JStr ''integer''),
                  (''description'', JStr ''Max posts to return (default 10).''),
                  (''default'', JInt 10)])])]\<rparr>,
      \<lparr>tool_name = ''list_channels'',
       description =
         ''List news channels available in a space. Returns channel names and '' @
         ''installation IDs that can be used with get_news.'',
       inputSchema = JDict
         [(''type'', JStr ''object''),
          (''properties'', JDict
             [(''space_id'', JDict
                 [(''type'', JStr ''string''),
                  (''description'', JStr ''The space ID to list channels for.'')])]),
          (''required'', JList [JStr ''space_id''])]\<rparr>,
      \<lparr>tool_name = ''get_page'',
       description = ''Fetch a Staffbase page by its ID. Returns title and HTML content.'',
       inputSchema = JDict
         [(''type'', JStr ''object''),
          (''properties'', JDict
             [(''page_id'', JDict
                 [(''type'', JStr ''string''),
                  (''description'', JStr ''The page ID.'')])]),
          (''required'', JList [JStr ''page_id''])]\<rparr>,
      \<lparr>tool_name = ''search'',
       description = ''Full-text search across all Staffbase content.'',
       inputSchema = JDict
         [(''type'', JStr ''object''),
          (''properties'', JDict
             [(''query'', JDict
                 [(''type'', JStr ''string''),
                  (''description'', JStr ''Search query.'')]),
              (''limit'', JDict
                 [(''type'', JStr ''integer''),
                  (''description'', JStr ''Max results (default 10).''),
                  (''default'', JInt 10)])]),
          (''required'', JList [JStr ''query''])]\<rparr>]"

definition list_tools :: "Tool list" where
  "list_tools = map (\<lambda>t. \<lparr>tool_name = tool_name t, description = description t,
                            inputSchema = inputSchema t\<rparr>) TOOLS"

subsection \<open>Notions of the specification\<close>

text \<open>A configuration value that is absent or empty, and a configuration that has both.\<close>

definition absent_or_empty :: "environ \<Rightarrow> string \<Rightarrow> bool" where
  "absent_or_empty env k = (env k = None \<or> env k = Some [])"

definition configured :: "environ \<Rightarrow> bool" where
  "configured env =
     (\<not> absent_or_empty env ''STAFFBASE_URL'' \<and> \<not> absent_or_empty env ''STAFFBASE_API_KEY'')"

text \<open>
  The channel tree as the specification describes it: a node is an object, its children
  are the list under \<^verbatim>\<open>children\<close> (none when the field is missing), and a node is a
  news node when its \<^verbatim>\<open>type\<close> field equals \<^verbatim>\<open>"news"\<close>.
\<close>

fun is_news :: "json \<Rightarrow> bool" where
  "is_news (JDict kvs) = (map_of kvs ''type'' = Some (JStr ''news''))"
| "is_news other = False"

fun node_children :: "json \<Rightarrow> json list" where
  "node_children (JDict kvs) =
     (case map_of kvs ''children'' of Some (JList cs) \<Rightarrow> cs | _ \<Rightarrow> [])"
| "node_children other = []"

fun is_node :: "json \<Rightarrow> bool" where
  "is_node (JDict kvs) =
     (case map_of kvs ''children'' of None \<Rightarrow> True | Some (JList cs) \<Rightarrow> True | Some other \<Rightarrow> False)"
| "is_node other = False"

text \<open>
  All nodes of a forest in depth-first order, a node before the nodes below it, and these
  before the node's later siblings.
\<close>

function preorder :: "json list \<Rightarrow> json list" where
  "preorder [] = []"
| "preorder (n # ns) = n # preorder (node_children n) @ preorder ns"
  by pat_completeness auto

lemma size_node_children: "size_list size (node_children n) \<le> size n"
proof (cases n)
  case (JDict kvs)
  show ?thesis
  proof (cases "map_of kvs ''children''")
    case None
    with JDict show ?thesis by simp
  next
    case (Some v)
    with JDict size_map_of[OF Some] show ?thesis by (cases v) auto
  qed
qed auto

termination preorder
proof (relation "measure (size_list size)")
  fix n :: json and ns :: "json list"
  show "(node_children n, n # ns) \<in> measure (size_list size)"
    using size_node_children[of n] by simp
qed auto

text \<open>An element of the spaces list that has an \<^verbatim>\<open>id\<close> key.\<close>

fun has_id :: "json \<Rightarrow> bool" where
  "has_id (JDict kvs) = (map_of kvs ''id'' \<noteq> None)"
| "has_id other = False"

subsection \<open>Sample configurations and upstreams\<close>

definition env_ok :: environ where
  "env_ok = [''STAFFBASE_URL'' \<mapsto> ''https://intranet.example.com/'',
             ''STAFFBASE_API_KEY'' \<mapsto> ''dXNlcjpwYXNz'']"

definition env_no_key :: environ where
  "env_no_key = [''STAFFBASE_URL'' \<mapsto> ''https://intranet.example.com/'']"

definition client_ok :: StaffbaseClient where
  "client_ok = \<lparr>base_url = ''https://intranet.example.com'',
                 client_headers = [(''Authorization'', ''Basic dXNlcjpwYXNz'')],
                 client_timeout = 30\<rparr>"

text \<open>The frames a recursion limit of 1000 allows at most.\<close>

definition sample_frames :: nat where
  "sample_frames = 1000"

definition up_down :: upstream where
  "up_down req = Inl (TransportError ''All connection attempts failed'')"

definition env_empty :: environ where
  "env_empty = Map.empty"

text \<open>The spaces of the specification's example, and a list with a space without id.\<close>

definition up_spaces :: upstream where
  "up_spaces req =
     Inr (JDict [(''data'', JList [JDict [(''id'', JStr ''1''), (''name'', JStr ''HQ'')],
                                   JDict [(''id'', JStr ''2'')]])])"

text \<open>
  The request \<^verbatim>\<open>_get\<close> sends for a path and query parameters: the URL is the
  client's base URL followed by the path.
\<close>

definition api_request ::
  "StaffbaseClient \<Rightarrow> piece list \<Rightarrow> (string \<times> json) list option \<Rightarrow> request" where
  "api_request c path ps =
     \<lparr>url = fstring (Lit (base_url c) # path), headers = client_headers c,
      params = ps, timeout = client_timeout c\<rparr>"

definition up_spaces_no_id :: upstream where
  "up_spaces_no_id req = Inr (JList [JDict [(''id'', JStr ''1'')], JDict [(''name'', JStr ''HQ'')]])"

text \<open>The page of the specification's example, served under its path.\<close>

definition page42 :: json where
  "page42 = JDict [(''id'', JStr ''42''),
                   (''contents'', JDict [(''en'', JDict [(''title'', JStr ''Hi''),
                                                         (''content'', JStr ''Body'')])]),
                   (''updatedAt'', JStr ''2024-01-01'')]"

definition up_page42 :: upstream where
  "up_page42 req =
     (if url req = [Lit ''https://intranet.example.com/api/pages/42''] then Inr page42
      else Inl (HTTPStatusError ''404 Not Found''))"

text \<open>A post, and upstreams that return it in a list, bare and under \<^verbatim>\<open>data\<close>.\<close>

definition post_hello :: json where
  "post_hello = JDict [(''id'', JStr ''p1''),
                       (''contents'', JDict [(''en'', JDict [(''title'', JStr ''Hello''),
                                                             (''teaser'', JStr ''Welcome'')])]),
                       (''publishedAt'', JStr ''2024-01-01'')]"

definition up_wrapped :: upstream where
  "up_wrapped req = Inr (JDict [(''total'', JInt 1), (''data'', JList [post_hello])])"

definition up_bare :: upstream where
  "up_bare req = Inr (JList [post_hello])"

text \<open>
  An upstream with two posts without any field, one whose answer is not a list, and what
  the adapter emits for a post without any field.
\<close>

definition up_two_posts :: upstream where
  "up_two_posts req = Inr (JList [JDict [], JDict []])"

definition up_not_list :: upstream where
  "up_not_list req = Inr (JDict [(''message'', JStr ''maintenance'')])"

definition empty_entry :: json where
  "empty_entry = JDict [(''id'', JStr []), (''title'', JStr []), (''teaser'', JStr []),
                        (''published'', JStr []), (''locale'', JStr [])]"

text \<open>A post with a teaser of 500 characters and a page with a content of 10000.\<close>

definition post500 :: json where
  "post500 = JDict [(''id'', JStr ''p500''),
                    (''contents'', JDict [(''de'', JDict [(''title'', JStr ''Lang''),
                                           (''teaser'', JStr (replicate 500 (CHR ''x'')))])]),
                    (''publishedAt'', JStr ''2024-02-02'')]"

definition up_post500 :: upstream where
  "up_post500 req = Inr (JList [post500])"

definition page10000 :: json where
  "page10000 = JDict [(''id'', JStr ''7''),
                      (''contents'', JDict [(''de'', JDict [(''title'', JStr ''Lang''),
                                             (''content'', JStr (replicate 10000 (CHR ''y'')))])]),
                      (''updatedAt'', JStr ''2024-03-03'')]"

definition up_page10000 :: upstream where
  "up_page10000 req = Inr page10000"

text \<open>
  A channel tree: a folder holding the news channel Alpha, which has the news channel Beta
  as its child, and an inner folder with the channel Gamma; after the folder the channel
  Delta. Alpha has a localized title and an installation id, Beta a top-level title and an
  id only, Gamma neither.
\<close>

definition ch_beta :: json where
  "ch_beta = JDict [(''type'', JStr ''news''), (''title'', JStr ''Beta''), (''id'', JStr ''ib'')]"

definition ch_alpha :: json where
  "ch_alpha = JDict [(''type'', JStr ''news''),
                     (''contents'', JDict [(''en'', JDict [(''title'', JStr ''Alpha'')])]),
                     (''installationID'', JStr ''ia''), (''id'', JStr ''x''),
                     (''children'', JList [ch_beta])]"

definition ch_gamma :: json where
  "ch_gamma = JDict [(''type'', JStr ''news'')]"

definition folder_inner :: json where
  "folder_inner = JDict [(''type'', JStr ''folder''), (''children'', JList [ch_gamma])]"

definition folder_outer :: json where
  "folder_outer = JDict [(''type'', JStr ''folder''),
                         (''children'', JList [ch_alpha, folder_inner])]"

definition ch_delta :: json where
  "ch_delta = JDict [(''type'', JStr ''news''),
                     (''contents'', JDict [(''de'', JDict [])]),
                     (''title'', JStr ''Delta''), (''installationID'', JStr ''id4'')]"

definition sample_tree :: "json list" where
  "sample_tree = [folder_outer, ch_delta]"

definition up_tree :: upstream where
  "up_tree req = Inr (JDict [(''data'', JList sample_tree)])"

text \<open>
  The localized title of the specification: the title of the first content object of a
  contents mapping, the empty string when there is none.
\<close>

fun first_locale_title :: "json \<Rightarrow> json" where
  "first_locale_title (JDict ((k, JDict lkvs) # others)) = dict_get lkvs ''title'' (JStr [])"
| "first_locale_title other = JStr []"

text \<open>The channels of the tree in depth-first order.\<close>

definition sample_channels :: "json list" where
  "sample_channels =
     [JDict [(''name'', JStr ''Alpha''), (''installation_id'', JStr ''ia'')],
      JDict [(''name'', JStr ''Beta''), (''installation_id'', JStr ''ib'')],
      JDict [(''name'', JStr []), (''installation_id'', JStr [])],
      JDict [(''name'', JStr ''Delta''), (''installation_id'', JStr ''id4'')]]"

text \<open>
  The nesting depth of a forest: none for the empty forest, and one more than the depth of
  the deepest forest of children otherwise. It is the number of nested calls of
  \<^verbatim>\<open>_extract_channels\<close> the walk over the forest makes.
\<close>

function nesting :: "json list \<Rightarrow> nat" where
  "nesting [] = 0"
| "nesting (n # ns) = max (Suc (nesting (node_children n))) (nesting ns)"
  by pat_completeness auto

termination nesting
proof (relation "measure (size_list size)")
  fix n :: json and ns :: "json list"
  show "(node_children n, n # ns) \<in> measure (size_list size)"
    using size_node_children[of n] by simp
qed auto

text \<open>
  A channel below \<open>n\<close> nested folders, and the tree with the channel Gamma below 1000
  folders.
\<close>

fun nest :: "nat \<Rightarrow> json \<Rightarrow> json" where
  "nest 0 leaf = leaf"
| "nest (Suc n) leaf =
     JDict [(''type'', JStr ''folder''), (''children'', JList [nest n leaf])]"

definition deep_tree :: "json list" where
  "deep_tree = [nest 1000 ch_gamma]"

definition up_deep :: upstream where
  "up_deep req = Inr (JList deep_tree)"

section \<open>Properties\<close>

subsection \<open>Configuration\<close>

lemma get_client_unconfigured:
  "\<not> configured env \<Longrightarrow> get_client env = Inl (RuntimeError
     ''STAFFBASE_URL and STAFFBASE_API_KEY environment variables are required.'')"
  by (auto simp: configured_def absent_or_empty_def get_client_def environ_get_def Let_def
           split: option.splits)

lemma get_client_configured:
  "configured env \<Longrightarrow> \<exists>c. get_client env = Inr c"
  by (auto simp: configured_def absent_or_empty_def get_client_def environ_get_def Let_def
           split: option.splits)

lemma configured_env_ok: "configured env_ok"
  by (simp add: configured_def absent_or_empty_def env_ok_def)

lemma get_client_env_ok: "get_client env_ok = Inr client_ok"
  by (simp add: get_client_def environ_get_def env_ok_def new_client_def rstrip_slash_def
        DEFAULT_TIMEOUT_def client_ok_def)

subsection \<open>The tool-call boundary\<close>

text \<open>
  Claim C1. Whatever the dispatch raises for a tool name and an argument mapping,
  \<^verbatim>\<open>call_tool\<close> catches it: it returns one text payload, the JSON object
  \<^verbatim>\<open>{"error": str(exception)}\<close>, after logging the failure. The result of
  \<^verbatim>\<open>call_tool\<close> is a list of payloads and never an exception.
\<close>

theorem call_tool_catches:
  "snd (handle_tool frames env up name arguments) = Inl exc \<Longrightarrow>
     snd (call_tool frames env up name arguments) =
       [TextContent ''text'' (json_dumps (JDict [(''error'', JStr (str_exc exc))]) None False)] \<and>
     fst (call_tool frames env up name arguments) =
       fst (handle_tool frames env up name arguments) @ [LogException (''Tool '' @ name @ '' failed'')]"
  by (cases "handle_tool frames env up name arguments") (simp add: call_tool_def)

theorem call_tool_catches_witness:
  "snd (handle_tool sample_frames env_ok up_down ''list_channels'' []) = Inl (KeyError ''space_id'') \<and>
   snd (call_tool sample_frames env_ok up_down ''list_channels'' []) =
     [TextContent ''text''
        (json_dumps (JDict [(''error'', JStr (quoted ''space_id''))]) None False)] \<and>
   fst (call_tool sample_frames env_ok up_down ''list_channels'' []) =
     [LogException ''Tool list_channels failed'']"
proof -
  have h: "snd (handle_tool sample_frames env_ok up_down ''list_channels'' []) = Inl (KeyError ''space_id'')"
    by (simp add: handle_tool_def get_client_env_ok)
  have e: "fst (handle_tool sample_frames env_ok up_down ''list_channels'' []) = []"
    by (simp add: handle_tool_def get_client_env_ok)
  from call_tool_catches[OF h] h e show ?thesis by simp
qed

subsection \<open>Unknown tools and missing configuration\<close>

lemma tool_names:
  "map tool_name TOOLS =
     [''list_spaces'', ''get_news'', ''list_channels'', ''get_page'', ''search'']"
  by (simp add: TOOLS_def)

lemma handle_tool_unknown:
  "name \<notin> set (map tool_name TOOLS) \<Longrightarrow>
   handle_tool frames env up name arguments =
     (case get_client env of
        Inl e \<Rightarrow> ([], Inl e)
      | Inr c \<Rightarrow>
          ([], Inr (json_dumps (JDict [(''error'', JStr (''Unknown tool: '' @ name))])
                      None False)))"
  unfolding tool_names by (auto simp: handle_tool_def split: sum.splits)

text \<open>
  Claim C3, as the code has it. The client is built before the tool name is looked at, so
  a call with a name outside the catalog returns the serialised object
  \<^verbatim>\<open>{"error": "Unknown tool: <name>"}\<close> when both configuration values are present and
  non-empty; in every case it performs no upstream HTTP call.
\<close>

theorem unknown_tool:
  "name \<notin> set (map tool_name TOOLS) \<Longrightarrow>
     http_calls (fst (call_tool frames env up name arguments)) = [] \<and>
     (configured env \<longrightarrow>
        handle_tool frames env up name arguments =
          ([], Inr (json_dumps (JDict [(''error'', JStr (''Unknown tool: '' @ name))])
                      None False)) \<and>
        call_tool frames env up name arguments =
          ([], [TextContent ''text''
                  (json_dumps (JDict [(''error'', JStr (''Unknown tool: '' @ name))])
                     None False)]))"
proof -
  assume n: "name \<notin> set (map tool_name TOOLS)"
  show ?thesis
  proof (cases "get_client env")
    case (Inl e)
    with get_client_configured[of env] have "\<not> configured env" by auto
    with Inl handle_tool_unknown[where frames=frames and env=env and up=up and arguments=arguments, OF n] show ?thesis
      by (simp add: call_tool_def)
  next
    case (Inr c)
    with handle_tool_unknown[where frames=frames and env=env and up=up and arguments=arguments, OF n] show ?thesis
      by (simp add: call_tool_def)
  qed
qed

theorem unknown_tool_witness:
  "''frobnicate'' \<notin> set (map tool_name TOOLS) \<and> configured env_ok \<and>
   http_calls (fst (call_tool sample_frames env_ok up_down ''frobnicate'' [])) = [] \<and>
   handle_tool sample_frames env_ok up_down ''frobnicate'' [] =
     ([], Inr (json_dumps (JDict [(''error'', JStr ''Unknown tool: frobnicate'')])
                 None False))"
proof -
  have n: "''frobnicate'' \<notin> set (map tool_name TOOLS)" by (simp add: TOOLS_def)
  from unknown_tool[where frames=sample_frames and env=env_ok and up=up_down and arguments="[]", OF n] n configured_env_ok show ?thesis by simp
qed

text \<open>
  The claim as the specification words it, for every name outside the catalog, fails where
  the configuration is missing: the call returns the configuration error instead.
\<close>

theorem unknown_tool_unconfigured:
  "''frobnicate'' \<notin> set (map tool_name TOOLS) \<and>
   handle_tool sample_frames env_empty up_down ''frobnicate'' [] =
     ([], Inl (RuntimeError
        ''STAFFBASE_URL and STAFFBASE_API_KEY environment variables are required.'')) \<and>
   snd (call_tool sample_frames env_empty up_down ''frobnicate'' []) \<noteq>
     [TextContent ''text''
        (json_dumps (JDict [(''error'', JStr ''Unknown tool: frobnicate'')]) None False)]"
  by (simp add: TOOLS_def handle_tool_def call_tool_def get_client_def environ_get_def
        env_empty_def)

text \<open>
  Claim C4. For every tool name and arguments, when \<^verbatim>\<open>STAFFBASE_URL\<close> or
  \<^verbatim>\<open>STAFFBASE_API_KEY\<close> is absent or empty, the call returns an error payload whose
  message contains both variable names, and no upstream HTTP call is attempted.
\<close>

theorem missing_configuration:
  "absent_or_empty env ''STAFFBASE_URL'' \<or> absent_or_empty env ''STAFFBASE_API_KEY'' \<Longrightarrow>
     (\<exists>msg. snd (call_tool frames env up name arguments) =
              [TextContent ''text'' (json_dumps (JDict [(''error'', JStr msg)]) None False)] \<and>
            sublist ''STAFFBASE_URL'' msg \<and> sublist ''STAFFBASE_API_KEY'' msg) \<and>
     http_calls (fst (call_tool frames env up name arguments)) = []"
proof -
  let ?msg = "''STAFFBASE_URL and STAFFBASE_API_KEY environment variables are required.''"
  assume "absent_or_empty env ''STAFFBASE_URL'' \<or> absent_or_empty env ''STAFFBASE_API_KEY''"
  then have "\<not> configured env" by (auto simp: configured_def)
  then have g: "get_client env = Inl (RuntimeError ?msg)" by (rule get_client_unconfigured)
  have h: "handle_tool frames env up name arguments = ([], Inl (RuntimeError ?msg))"
    by (simp add: handle_tool_def g)
  have u: "sublist ''STAFFBASE_URL'' ?msg"
    unfolding sublist_def
    by (rule exI[of _ "[]"],
        rule exI[of _ "'' and STAFFBASE_API_KEY environment variables are required.''"]) simp
  have k: "sublist ''STAFFBASE_API_KEY'' ?msg"
    unfolding sublist_def
    by (rule exI[of _ "''STAFFBASE_URL and ''"],
        rule exI[of _ "'' environment variables are required.''"]) simp
  have c: "snd (call_tool frames env up name arguments) =
      [TextContent ''text'' (json_dumps (JDict [(''error'', JStr ?msg)]) None False)]"
    by (simp add: call_tool_def h)
  have e: "http_calls (fst (call_tool frames env up name arguments)) = []"
    by (simp add: call_tool_def h)
  from c u k e show ?thesis by blast
qed

theorem missing_configuration_witness:
  "absent_or_empty env_no_key ''STAFFBASE_API_KEY'' \<and>
   (\<exists>msg. snd (call_tool sample_frames env_no_key up_down ''list_spaces'' []) =
              [TextContent ''text'' (json_dumps (JDict [(''error'', JStr msg)]) None False)] \<and>
            sublist ''STAFFBASE_URL'' msg \<and> sublist ''STAFFBASE_API_KEY'' msg) \<and>
   http_calls (fst (call_tool sample_frames env_no_key up_down ''list_spaces'' [])) = []"
proof -
  have a: "absent_or_empty env_no_key ''STAFFBASE_API_KEY''"
    by (simp add: absent_or_empty_def env_no_key_def)
  then have "absent_or_empty env_no_key ''STAFFBASE_URL'' \<or>
             absent_or_empty env_no_key ''STAFFBASE_API_KEY''" by simp
  from missing_configuration[where frames=sample_frames and up=up_down and name="''list_spaces''"
         and arguments="[]", OF this] a
  show ?thesis by simp
qed

subsection \<open>Sequencing, comprehensions and requests\<close>

lemma bind_exn_Inr_iff: "bind_exn m f = Inr y \<longleftrightarrow> (\<exists>x. m = Inr x \<and> f x = Inr y)"
  by (cases m) auto

lemma bind_exn_Inl_iff:
  "bind_exn m f = Inl e \<longleftrightarrow> m = Inl e \<or> (\<exists>x. m = Inr x \<and> f x = Inl e)"
  by (cases m) auto

lemma map_exn_Inr:
  "map_exn f xs = Inr ys \<longleftrightarrow> list_all2 (\<lambda>x y. f x = Inr y) xs ys"
  by (induction xs arbitrary: ys) (auto simp: bind_exn_Inr_iff list_all2_Cons1)

lemma map_exn_Inl:
  "map_exn f xs = Inl e \<Longrightarrow> \<exists>x\<in>set xs. f x = Inl e"
  by (induction xs) (auto simp: bind_exn_Inl_iff)

lemma map_exn_total:
  "(\<forall>x\<in>set xs. f x = Inr (g x)) \<Longrightarrow> map_exn f xs = Inr (map g xs)"
  by (induction xs) auto

lemma client_get_events:
  "client_get up c path ps = ([HttpGet (api_request c path ps)], up (api_request c path ps))"
  by (simp add: client_get_def api_request_def Let_def)

subsection \<open>Listing spaces\<close>

lemma space_entry_has_id:
  "has_id s \<Longrightarrow> \<exists>kvs v. s = JDict kvs \<and> map_of kvs ''id'' = Some v \<and>
     space_entry s = Inr (JDict [(''id'', v), (''name'', dict_get kvs ''name'' (JStr []))])"
  by (cases s) (auto simp: space_entry_def dict_get_def)

lemma space_entry_no_id:
  "\<not> has_id s \<Longrightarrow> \<exists>e. space_entry s = Inl e \<and> ((\<exists>kvs. s = JDict kvs) \<longrightarrow> e = KeyError ''id'')"
  by (cases s) (auto simp: space_entry_def)

lemma space_entry_Inr:
  "space_entry s = Inr r \<longleftrightarrow>
     (\<exists>kvs v. s = JDict kvs \<and> map_of kvs ''id'' = Some v \<and>
        r = JDict [(''id'', v), (''name'', dict_get kvs ''name'' (JStr []))])"
  using space_entry_has_id[of s] space_entry_no_id[of s] by (cases "has_id s") auto

lemma handle_list_spaces:
  assumes "get_client env = Inr c"
    and "up (api_request c [Lit ''/api/spaces''] (Some [(''includeHidden'', JStr ''true'')]))
            = Inr data"
    and "unwrap data = JList spaces"
  shows "snd (handle_tool frames env up ''list_spaces'' arguments) =
           bind_exn (map_exn space_entry spaces)
             (\<lambda>result. Inr (json_dumps (JList result) (Some 2) False))"
  using assms by (simp add: handle_tool_def list_spaces_def client_get_events then_pure_def)

lemma map_exn_success:
  "(\<forall>x\<in>set xs. \<exists>y. f x = Inr y) \<Longrightarrow> \<exists>ys. map_exn f xs = Inr ys"
  by (induction xs) (auto simp: bind_exn_Inr_iff)

lemma map_exn_all:
  "map_exn f xs = Inr ys \<Longrightarrow> \<forall>x\<in>set xs. \<exists>y. f x = Inr y"
  by (induction xs arbitrary: ys) (auto simp: bind_exn_Inr_iff)

lemma spaces_ok:
  assumes "\<forall>s\<in>set spaces. has_id s"
  shows "\<exists>result. map_exn space_entry spaces = Inr result \<and>
               list_all2 (\<lambda>s r. \<exists>kvs v. s = JDict kvs \<and> map_of kvs ''id'' = Some v \<and>
                    r = JDict [(''id'', v), (''name'', dict_get kvs ''name'' (JStr []))])
                 spaces result"
proof -
  from assms have "\<forall>s\<in>set spaces. \<exists>r. space_entry s = Inr r"
    using space_entry_has_id by blast
  then obtain rs where m: "map_exn space_entry spaces = Inr rs"
    using map_exn_success by blast
  then have "list_all2 (\<lambda>s r. space_entry s = Inr r) spaces rs" by (simp add: map_exn_Inr)
  then have "list_all2 (\<lambda>s r. \<exists>kvs v. s = JDict kvs \<and> map_of kvs ''id'' = Some v \<and>
                    r = JDict [(''id'', v), (''name'', dict_get kvs ''name'' (JStr []))])
                 spaces rs"
    by (rule list_all2_mono) (simp only: space_entry_Inr)
  with m show ?thesis by blast
qed

lemma spaces_bad:
  assumes "\<not> (\<forall>s\<in>set spaces. has_id s)"
  shows "\<exists>e. map_exn space_entry spaces = Inl e \<and>
              ((\<forall>s\<in>set spaces. \<exists>kvs. s = JDict kvs) \<longrightarrow> e = KeyError ''id'')"
proof (cases "map_exn space_entry spaces")
  case (Inl e)
  then obtain s where s: "s \<in> set spaces" "space_entry s = Inl e"
    using map_exn_Inl by blast
  have "\<not> has_id s"
  proof
    assume "has_id s"
    from space_entry_has_id[OF this] s(2) show False by auto
  qed
  from space_entry_no_id[OF this] s
  have "(\<exists>kvs. s = JDict kvs) \<longrightarrow> e = KeyError ''id''" by auto
  with s Inl show ?thesis by auto
next
  case (Inr rs)
  from map_exn_all[OF this] have a: "\<forall>s\<in>set spaces. \<exists>r. space_entry s = Inr r" .
  have "\<forall>s\<in>set spaces. has_id s"
  proof
    fix s assume "s \<in> set spaces"
    with a obtain r where r: "space_entry s = Inr r" by blast
    show "has_id s"
    proof (rule ccontr)
      assume "\<not> has_id s"
      from space_entry_no_id[OF this] r show False by auto
    qed
  qed
  with assms show ?thesis by simp
qed

text \<open>
  Claim C10. For \<^verbatim>\<open>list_spaces\<close> on an upstream list of spaces: the call succeeds
  if and only if every element has an \<^verbatim>\<open>id\<close> key. On success each element is
  emitted with its id and with its name, the empty string when it has none. Otherwise the
  whole call returns an error payload \<^verbatim>\<open>{"error": ...}\<close>, which is the missing-key
  exception for \<^verbatim>\<open>id\<close> when the elements are objects.
\<close>

theorem list_spaces_needs_id:
  assumes c: "get_client env = Inr c"
    and u: "up (api_request c [Lit ''/api/spaces''] (Some [(''includeHidden'', JStr ''true'')]))
            = Inr data"
    and d: "unwrap data = JList spaces"
  shows "((\<exists>t. snd (handle_tool frames env up ''list_spaces'' arguments) = Inr t) \<longleftrightarrow>
            (\<forall>s\<in>set spaces. has_id s)) \<and>
         ((\<forall>s\<in>set spaces. has_id s) \<longrightarrow>
            (\<exists>result. snd (handle_tool frames env up ''list_spaces'' arguments) =
                        Inr (json_dumps (JList result) (Some 2) False) \<and>
               list_all2 (\<lambda>s r. \<exists>kvs v. s = JDict kvs \<and> map_of kvs ''id'' = Some v \<and>
                    r = JDict [(''id'', v), (''name'', dict_get kvs ''name'' (JStr []))])
                 spaces result)) \<and>
         (\<not> (\<forall>s\<in>set spaces. has_id s) \<longrightarrow>
            (\<exists>e. snd (call_tool frames env up ''list_spaces'' arguments) =
                    [TextContent ''text''
                       (json_dumps (JDict [(''error'', JStr (str_exc e))]) None False)] \<and>
                 ((\<forall>s\<in>set spaces. \<exists>kvs. s = JDict kvs) \<longrightarrow> e = KeyError ''id'')))"
proof (cases "\<forall>s\<in>set spaces. has_id s")
  case True
  from spaces_ok[OF True] obtain result where
    r: "map_exn space_entry spaces = Inr result"
       "list_all2 (\<lambda>s r. \<exists>kvs v. s = JDict kvs \<and> map_of kvs ''id'' = Some v \<and>
                    r = JDict [(''id'', v), (''name'', dict_get kvs ''name'' (JStr []))])
                 spaces result" by blast
  have "snd (handle_tool frames env up ''list_spaces'' arguments) =
          Inr (json_dumps (JList result) (Some 2) False)"
    by (simp add: handle_list_spaces[where frames=frames and env=env and c=c and up=up and data=data
          and spaces=spaces and arguments=arguments] c u d r(1))
  with True r(2) show ?thesis by auto
next
  case False
  from spaces_bad[OF False] obtain e where
    e: "map_exn space_entry spaces = Inl e"
       "(\<forall>s\<in>set spaces. \<exists>kvs. s = JDict kvs) \<longrightarrow> e = KeyError ''id''" by blast
  have h: "snd (handle_tool frames env up ''list_spaces'' arguments) = Inl e"
    by (simp add: handle_list_spaces[where frames=frames and env=env and c=c and up=up and data=data
          and spaces=spaces and arguments=arguments] c u d e(1))
  then have "snd (call_tool frames env up ''list_spaces'' arguments) =
        [TextContent ''text'' (json_dumps (JDict [(''error'', JStr (str_exc e))]) None False)]"
    by (cases "handle_tool frames env up ''list_spaces'' arguments") (simp add: call_tool_def)
  with False h e(2) show ?thesis by auto
qed

theorem list_spaces_needs_id_witness:
  "get_client env_ok = Inr client_ok \<and>
   has_id (JDict [(''id'', JStr ''1''), (''name'', JStr ''HQ'')]) \<and>
   has_id (JDict [(''id'', JStr ''2'')]) \<and>
   snd (handle_tool sample_frames env_ok up_spaces ''list_spaces'' []) =
     Inr (json_dumps (JList [JDict [(''id'', JStr ''1''), (''name'', JStr ''HQ'')],
                             JDict [(''id'', JStr ''2''), (''name'', JStr [])]])
            (Some 2) False) \<and>
   \<not> has_id (JDict [(''name'', JStr ''HQ'')]) \<and>
   snd (call_tool sample_frames env_ok up_spaces_no_id ''list_spaces'' []) =
     [TextContent ''text'' (json_dumps (JDict [(''error'', JStr (quoted ''id''))]) None False)]"
proof -
  let ?req = "api_request client_ok [Lit ''/api/spaces''] (Some [(''includeHidden'', JStr ''true'')])"
  let ?good = "[JDict [(''id'', JStr ''1''), (''name'', JStr ''HQ'')], JDict [(''id'', JStr ''2'')]]"
  let ?bad = "[JDict [(''id'', JStr ''1'')], JDict [(''name'', JStr ''HQ'')]]"
  have u1: "up_spaces ?req = Inr (JDict [(''data'', JList ?good)])"
    by (simp add: up_spaces_def)
  have d1: "unwrap (JDict [(''data'', JList ?good)]) = JList ?good" by simp
  have u2: "up_spaces_no_id ?req = Inr (JList ?bad)"
    by (simp add: up_spaces_no_id_def)
  have d2: "unwrap (JList ?bad) = JList ?bad" by simp
  note t1 = list_spaces_needs_id[where frames=sample_frames and up=up_spaces and arguments="[]",
              OF get_client_env_ok u1 d1]
  note t2 = list_spaces_needs_id[where frames=sample_frames and up=up_spaces_no_id and arguments="[]",
              OF get_client_env_ok u2 d2]
  from t1 have g: "snd (handle_tool sample_frames env_ok up_spaces ''list_spaces'' []) =
     Inr (json_dumps (JList [JDict [(''id'', JStr ''1''), (''name'', JStr ''HQ'')],
                             JDict [(''id'', JStr ''2''), (''name'', JStr [])]])
            (Some 2) False)"
    by (auto simp: list_all2_Cons1 dict_get_def)
  from t2 have b: "snd (call_tool sample_frames env_ok up_spaces_no_id ''list_spaces'' []) =
     [TextContent ''text'' (json_dumps (JDict [(''error'', JStr (quoted ''id''))]) None False)]"
    by auto
  from g b get_client_env_ok show ?thesis by simp
qed

subsection \<open>Fetching a page\<close>

lemma py_get_dict: "py_get (JDict kvs) (JStr k) d = Inr (dict_get kvs k d)"
  by (simp add: dict_get_def)

lemma dict_get_Cons:
  "dict_get ((k, v) # kvs) k' d = (if k = k' then v else dict_get kvs k' d)"
  by (simp add: dict_get_def)

lemma dict_get_Some: "map_of kvs k = Some v \<Longrightarrow> dict_get kvs k d = v"
  by (simp add: dict_get_def)

lemma next_iter_dict:
  "next_iter (JDict ckvs) = Inr (case ckvs of [] \<Rightarrow> JNull | kv # _ \<Rightarrow> JStr (fst kv))"
  by (cases ckvs) (simp_all add: next_iter_def)

lemma page_entry_localized:
  assumes "map_of pkvs ''contents'' = Some (JDict ((k, JDict lkvs) # others))"
    and "k \<noteq> []"
    and "dict_get lkvs ''content'' (JStr []) = JStr s"
  shows "page_entry (JDict pkvs) =
           Inr (JDict [(''id'', dict_get pkvs ''id'' (JStr [])),
                       (''title'', dict_get lkvs ''title'' (JStr [])),
                       (''content'', JStr (take 5000 s)),
                       (''locale'', JStr k),
                       (''updated'', dict_get pkvs ''updatedAt'' (JStr []))])"
proof -
  from assms(1) have "dict_get pkvs ''contents'' (JDict []) = JDict ((k, JDict lkvs) # others)"
    by (rule dict_get_Some)
  with assms(2,3) show ?thesis
    by (simp add: page_entry_def py_get_dict next_iter_dict py_or_def dict_get_Cons
             del: py_get.simps)
qed

lemma page_entry_locale:
  assumes "page_entry (JDict pkvs) = Inr d"
    and "dict_get pkvs ''contents'' (JDict []) = JDict ckvs"
  shows "\<exists>rkvs. d = JDict rkvs \<and>
           map_of rkvs ''locale'' = Some (JStr (case ckvs of [] \<Rightarrow> [] | kv # _ \<Rightarrow> fst kv))"
proof (cases ckvs)
  case Nil
  with assms show ?thesis
    by (auto simp: page_entry_def py_get_dict next_iter_dict py_or_def bind_exn_Inr_iff
             simp del: py_get.simps)
next
  case (Cons kv others)
  with assms show ?thesis
    by (auto simp: page_entry_def py_get_dict next_iter_dict py_or_def bind_exn_Inr_iff
             dict_get_Cons simp del: py_get.simps split: if_splits)
qed

lemma handle_get_page:
  assumes "get_client env = Inr c"
    and "map_of arguments ''page_id'' = Some pid"
    and "up (api_request c [Lit ''/api/pages/'', interp pid] None) = Inr page"
  shows "handle_tool frames env up ''get_page'' arguments =
           ([HttpGet (api_request c [Lit ''/api/pages/'', interp pid] None)],
            bind_exn (page_entry page) (\<lambda>d. Inr (json_dumps d (Some 2) False)))"
  using assms by (simp add: handle_tool_def get_page_def client_get_events then_pure_def)

lemma page_entry_no_contents:
  assumes "dict_get pkvs ''contents'' (JDict []) = JDict []"
  shows "page_entry (JDict pkvs) =
           Inr (JDict [(''id'', dict_get pkvs ''id'' (JStr [])),
                       (''title'', JStr []),
                       (''content'', JStr []),
                       (''locale'', JStr []),
                       (''updated'', dict_get pkvs ''updatedAt'' (JStr []))])"
  using assms
  by (simp add: page_entry_def py_get_dict next_iter_dict py_or_def dict_get_def[of "[]"]
           del: py_get.simps)

lemma page_entry_page42:
  "page_entry page42 =
     Inr (JDict [(''id'', JStr ''42''), (''title'', JStr ''Hi''), (''content'', JStr ''Body''),
                 (''locale'', JStr ''en''), (''updated'', JStr ''2024-01-01'')])"
  by (simp add: page42_def page_entry_def next_iter_def py_or_def)

text \<open>
  Claim C8. For \<^verbatim>\<open>get_page\<close> with page id "42", when the upstream returns the page
  \<^verbatim>\<open>{id: "42", contents: {"en": {title: "Hi", content: "Body"}}, updatedAt: "2024-01-01"}\<close>,
  the output is the object with id "42", title "Hi", content "Body", locale "en" and
  updated "2024-01-01". For every page the emitted locale is the first key of the contents
  mapping, and the empty string when the mapping is empty.
\<close>

theorem get_page_example:
  assumes c: "get_client env = Inr c"
    and a: "map_of arguments ''page_id'' = Some pid"
    and u: "up (api_request c [Lit ''/api/pages/'', interp pid] None) = Inr page"
  shows "(pid = JStr ''42'' \<and> page = page42 \<longrightarrow>
            snd (handle_tool frames env up ''get_page'' arguments) =
              Inr (json_dumps
                     (JDict [(''id'', JStr ''42''), (''title'', JStr ''Hi''),
                             (''content'', JStr ''Body''), (''locale'', JStr ''en''),
                             (''updated'', JStr ''2024-01-01'')])
                     (Some 2) False)) \<and>
         (\<forall>pkvs ckvs d i ds.
            page = JDict pkvs \<and> dict_get pkvs ''contents'' (JDict []) = JDict ckvs \<and>
            snd (handle_tool frames env up ''get_page'' arguments) = Inr (json_dumps d i ds) \<longrightarrow>
            (\<exists>rkvs. d = JDict rkvs \<and>
               map_of rkvs ''locale'' =
                 Some (JStr (case ckvs of [] \<Rightarrow> [] | kv # _ \<Rightarrow> fst kv)))) \<and>
         (\<forall>pkvs. page = JDict pkvs \<and> dict_get pkvs ''contents'' (JDict []) = JDict [] \<longrightarrow>
            snd (handle_tool frames env up ''get_page'' arguments) =
              Inr (json_dumps
                     (JDict [(''id'', dict_get pkvs ''id'' (JStr [])), (''title'', JStr []),
                             (''content'', JStr []), (''locale'', JStr []),
                             (''updated'', dict_get pkvs ''updatedAt'' (JStr []))])
                     (Some 2) False))"
proof -
  have out: "snd (handle_tool frames env up ''get_page'' arguments) =
               bind_exn (page_entry page) (\<lambda>d. Inr (json_dumps d (Some 2) False))"
    by (simp add: handle_get_page[where frames=frames and env=env and c=c and arguments=arguments
          and pid=pid and up=up and page=page] c a u)
  have ex: "snd (handle_tool frames env up ''get_page'' arguments) =
              Inr (json_dumps
                     (JDict [(''id'', JStr ''42''), (''title'', JStr ''Hi''),
                             (''content'', JStr ''Body''), (''locale'', JStr ''en''),
                             (''updated'', JStr ''2024-01-01'')])
                     (Some 2) False)" if "page = page42"
    using that by (simp add: out page_entry_page42)
  have loc: "\<exists>rkvs. d = JDict rkvs \<and>
               map_of rkvs ''locale'' =
                 Some (JStr (case ckvs of [] \<Rightarrow> [] | kv # _ \<Rightarrow> fst kv))"
    if "page = JDict pkvs" "dict_get pkvs ''contents'' (JDict []) = JDict ckvs"
       "snd (handle_tool frames env up ''get_page'' arguments) = Inr (json_dumps d i ds)"
    for pkvs ckvs d i ds
  proof -
    from that(3) have "page_entry page = Inr d" by (auto simp: out bind_exn_Inr_iff)
    with that(1,2) show ?thesis using page_entry_locale by blast
  qed
  have emp: "snd (handle_tool frames env up ''get_page'' arguments) =
              Inr (json_dumps
                     (JDict [(''id'', dict_get pkvs ''id'' (JStr [])), (''title'', JStr []),
                             (''content'', JStr []), (''locale'', JStr []),
                             (''updated'', dict_get pkvs ''updatedAt'' (JStr []))])
                     (Some 2) False)"
    if "page = JDict pkvs" "dict_get pkvs ''contents'' (JDict []) = JDict []" for pkvs
    using that by (simp add: out page_entry_no_contents)
  from ex loc emp show ?thesis by blast
qed

theorem get_page_example_witness:
  "get_client env_ok = Inr client_ok \<and>
   map_of [(''page_id'', JStr ''42'')] ''page_id'' = Some (JStr ''42'') \<and>
   up_page42 (api_request client_ok [Lit ''/api/pages/'', interp (JStr ''42'')] None) = Inr page42 \<and>
   snd (handle_tool sample_frames env_ok up_page42 ''get_page'' [(''page_id'', JStr ''42'')]) =
     Inr (json_dumps
            (JDict [(''id'', JStr ''42''), (''title'', JStr ''Hi''),
                    (''content'', JStr ''Body''), (''locale'', JStr ''en''),
                    (''updated'', JStr ''2024-01-01'')])
            (Some 2) False)"
proof -
  have a: "map_of [(''page_id'', JStr ''42'')] ''page_id'' = Some (JStr ''42'')" by simp
  have u: "up_page42 (api_request client_ok [Lit ''/api/pages/'', interp (JStr ''42'')] None)
             = Inr page42"
    by (simp add: up_page42_def api_request_def client_ok_def)
  from get_page_example[where frames=sample_frames and up=up_page42, OF get_client_env_ok a u]
  have "snd (handle_tool sample_frames env_ok up_page42 ''get_page'' [(''page_id'', JStr ''42'')]) =
     Inr (json_dumps
            (JDict [(''id'', JStr ''42''), (''title'', JStr ''Hi''),
                    (''content'', JStr ''Body''), (''locale'', JStr ''en''),
                    (''updated'', JStr ''2024-01-01'')])
            (Some 2) False)" by blast
  with get_client_env_ok a u show ?thesis by blast
qed

subsection \<open>Fetching news\<close>

lemma slice_to_take: "slice_to xs l = Inr ps \<Longrightarrow> \<exists>m. ps = take m xs"
proof (cases l)
  case JNull
  assume "slice_to xs l = Inr ps"
  with JNull have "ps = take (length xs) xs" by simp
  then show ?thesis ..
next
  case (JInt n)
  assume "slice_to xs l = Inr ps"
  with JInt show ?thesis by (auto split: if_splits)
next
  case (JBool b)
  assume "slice_to xs l = Inr ps"
  with JBool show ?thesis by auto
qed auto

lemma news_entry_localized:
  assumes "map_of pkvs ''contents'' = Some (JDict ((k, JDict lkvs) # others))"
    and "k \<noteq> []"
    and "dict_get lkvs ''teaser'' (JStr []) = JStr s"
  shows "news_entry (JDict pkvs) =
           Inr (JDict [(''id'', dict_get pkvs ''id'' (JStr [])),
                       (''title'', dict_get lkvs ''title'' (JStr [])),
                       (''teaser'', JStr (take 200 s)),
                       (''published'', dict_get pkvs ''publishedAt'' (JStr [])),
                       (''locale'', JStr k)])"
proof -
  from assms(1) have "dict_get pkvs ''contents'' (JDict []) = JDict ((k, JDict lkvs) # others)"
    by (rule dict_get_Some)
  with assms(2,3) show ?thesis
    by (simp add: news_entry_def py_get_dict next_iter_dict py_or_def dict_get_Cons
             del: py_get.simps)
qed

lemma handle_get_news:
  assumes "get_client env = Inr c"
  shows "handle_tool frames env up ''get_news'' arguments =
     (let channel_id = dict_get arguments ''channel_id'' JNull;
          limit = dict_get arguments ''limit'' (JInt 10);
          ps = Some [(''limit'', limit), (''offset'', JInt 0)];
          req = (if truthy channel_id
                 then api_request c [Lit ''/api/channels/'', interp channel_id, Lit ''/posts''] ps
                 else api_request c [Lit ''/api/posts''] ps)
      in ([HttpGet req],
          bind_exn (up req) (\<lambda>data.
          bind_exn (case unwrap data of JList xs \<Rightarrow> slice_to xs limit | _ \<Rightarrow> Inr []) (\<lambda>ps.
          bind_exn (map_exn news_entry ps) (\<lambda>result.
          Inr (json_dumps (JList result) (Some 2) False))))))"
proof -
  let ?cid = "dict_get arguments ''channel_id'' JNull"
  let ?limit = "dict_get arguments ''limit'' (JInt 10)"
  let ?ps = "Some [(''limit'', ?limit), (''offset'', JInt 0)]"
  show ?thesis
  proof (cases "truthy ?cid")
    case True
    then show ?thesis
      using assms
      by (cases "up (api_request c [Lit ''/api/channels/'', interp ?cid, Lit ''/posts''] ?ps)")
         (simp_all add: handle_tool_def Let_def get_channel_posts_def client_get_events
            then_pure_def)
  next
    case False
    then show ?thesis
      using assms
      by (cases "up (api_request c [Lit ''/api/posts''] ?ps)")
         (simp_all add: handle_tool_def Let_def get_global_posts_def client_get_events
            then_pure_def)
  qed
qed

text \<open>
  Claim C5. For \<^verbatim>\<open>get_news\<close> with a channel id that is present and non-empty (truthy),
  the per-channel endpoint is called, and an upstream response that wraps a list under
  \<^verbatim>\<open>data\<close> gives the same output as the bare list; with no channel id, or an empty
  one, the global-posts endpoint is called instead.
\<close>

theorem get_news_channel:
  assumes c: "get_client env = Inr c"
    and cid: "dict_get arguments ''channel_id'' JNull = cid"
    and limit: "dict_get arguments ''limit'' (JInt 10) = limit"
  shows "(truthy cid \<longrightarrow>
            fst (handle_tool frames env up ''get_news'' arguments) =
              [HttpGet (api_request c [Lit ''/api/channels/'', interp cid, Lit ''/posts'']
                          (Some [(''limit'', limit), (''offset'', JInt 0)]))]) \<and>
         (\<forall>s. cid = JStr s \<and> s \<noteq> [] \<longrightarrow>
            (\<exists>req. fst (handle_tool frames env up ''get_news'' arguments) = [HttpGet req] \<and>
                   url req = [Lit (base_url c @ ''/api/channels/'' @ s @ ''/posts'')])) \<and>
         (\<forall>kvs posts up'.
            truthy cid \<and>
            up (api_request c [Lit ''/api/channels/'', interp cid, Lit ''/posts'']
                  (Some [(''limit'', limit), (''offset'', JInt 0)])) = Inr (JDict kvs) \<and>
            map_of kvs ''data'' = Some (JList posts) \<and>
            up' (api_request c [Lit ''/api/channels/'', interp cid, Lit ''/posts'']
                   (Some [(''limit'', limit), (''offset'', JInt 0)])) = Inr (JList posts) \<longrightarrow>
            handle_tool frames env up ''get_news'' arguments =
              handle_tool frames env up' ''get_news'' arguments) \<and>
         (\<not> truthy cid \<longrightarrow>
            fst (handle_tool frames env up ''get_news'' arguments) =
              [HttpGet (api_request c [Lit ''/api/posts'']
                          (Some [(''limit'', limit), (''offset'', JInt 0)]))])"
proof -
  note h = handle_get_news[where arguments=arguments and frames=frames, OF c]
  have a: "fst (handle_tool frames env up ''get_news'' arguments) =
              [HttpGet (api_request c [Lit ''/api/channels/'', interp cid, Lit ''/posts'']
                          (Some [(''limit'', limit), (''offset'', JInt 0)]))]"
    if "truthy cid"
    using that cid limit by (simp add: h Let_def)
  have b: "\<exists>req. fst (handle_tool frames env up ''get_news'' arguments) = [HttpGet req] \<and>
                   url req = [Lit (base_url c @ ''/api/channels/'' @ s @ ''/posts'')]"
    if "cid = JStr s" "s \<noteq> []" for s
  proof -
    from that have "truthy cid" by simp
    from a[OF this] that(1) show ?thesis by (simp add: api_request_def)
  qed
  have d: "handle_tool frames env up ''get_news'' arguments = handle_tool frames env up' ''get_news'' arguments"
    if "truthy cid"
       "up (api_request c [Lit ''/api/channels/'', interp cid, Lit ''/posts'']
              (Some [(''limit'', limit), (''offset'', JInt 0)])) = Inr (JDict kvs)"
       "map_of kvs ''data'' = Some (JList posts)"
       "up' (api_request c [Lit ''/api/channels/'', interp cid, Lit ''/posts'']
              (Some [(''limit'', limit), (''offset'', JInt 0)])) = Inr (JList posts)"
    for kvs posts up'
    using that cid limit by (simp add: h Let_def)
  have e: "fst (handle_tool frames env up ''get_news'' arguments) =
              [HttpGet (api_request c [Lit ''/api/posts'']
                          (Some [(''limit'', limit), (''offset'', JInt 0)]))]"
    if "\<not> truthy cid"
    using that cid limit by (simp add: h Let_def)
  from a b d e show ?thesis by blast
qed

theorem get_news_channel_witness:
  "get_client env_ok = Inr client_ok \<and>
   truthy (JStr ''abc'') \<and>
   fst (handle_tool sample_frames env_ok up_wrapped ''get_news'' [(''channel_id'', JStr ''abc'')]) =
     [HttpGet \<lparr>url = [Lit ''https://intranet.example.com/api/channels/abc/posts''],
               headers = [(''Authorization'', ''Basic dXNlcjpwYXNz'')],
               params = Some [(''limit'', JInt 10), (''offset'', JInt 0)],
               timeout = 30\<rparr>] \<and>
   handle_tool sample_frames env_ok up_wrapped ''get_news'' [(''channel_id'', JStr ''abc'')] =
     handle_tool sample_frames env_ok up_bare ''get_news'' [(''channel_id'', JStr ''abc'')] \<and>
   \<not> truthy JNull \<and>
   fst (handle_tool sample_frames env_ok up_bare ''get_news'' []) =
     [HttpGet \<lparr>url = [Lit ''https://intranet.example.com/api/posts''],
               headers = [(''Authorization'', ''Basic dXNlcjpwYXNz'')],
               params = Some [(''limit'', JInt 10), (''offset'', JInt 0)],
               timeout = 30\<rparr>]"
proof -
  let ?args = "[(''channel_id'', JStr ''abc'')]"
  have cid: "dict_get ?args ''channel_id'' JNull = JStr ''abc''" by (simp add: dict_get_def)
  have lim: "dict_get ?args ''limit'' (JInt 10) = JInt 10" by (simp add: dict_get_def)
  have cid0: "dict_get [] ''channel_id'' JNull = JNull" by (simp add: dict_get_def)
  have lim0: "dict_get [] ''limit'' (JInt 10) = JInt 10" by (simp add: dict_get_def)
  note t = get_news_channel[where frames=sample_frames and up=up_wrapped,
             OF get_client_env_ok cid lim]
  note t0 = get_news_channel[where frames=sample_frames and up=up_bare,
             OF get_client_env_ok cid0 lim0]
  have u1: "up_wrapped (api_request client_ok [Lit ''/api/channels/'', interp (JStr ''abc''), Lit ''/posts'']
                  (Some [(''limit'', JInt 10), (''offset'', JInt 0)])) =
              Inr (JDict [(''total'', JInt 1), (''data'', JList [post_hello])])"
    by (simp add: up_wrapped_def)
  have m: "map_of [(''total'', JInt 1), (''data'', JList [post_hello])] ''data'' =
             Some (JList [post_hello])" by simp
  have u2: "up_bare (api_request client_ok [Lit ''/api/channels/'', interp (JStr ''abc''), Lit ''/posts'']
                  (Some [(''limit'', JInt 10), (''offset'', JInt 0)])) = Inr (JList [post_hello])"
    by (simp add: up_bare_def)
  from t have a: "fst (handle_tool sample_frames env_ok up_wrapped ''get_news'' ?args) =
     [HttpGet (api_request client_ok [Lit ''/api/channels/'', interp (JStr ''abc''), Lit ''/posts'']
                  (Some [(''limit'', JInt 10), (''offset'', JInt 0)]))]" by simp
  from t u1 m u2 have b: "handle_tool sample_frames env_ok up_wrapped ''get_news'' ?args =
     handle_tool sample_frames env_ok up_bare ''get_news'' ?args" by (meson truthy.simps list.distinct)
  from t0 have e: "fst (handle_tool sample_frames env_ok up_bare ''get_news'' []) =
     [HttpGet (api_request client_ok [Lit ''/api/posts'']
                  (Some [(''limit'', JInt 10), (''offset'', JInt 0)]))]" by simp
  from a b e get_client_env_ok show ?thesis
    by (simp add: api_request_def client_ok_def)
qed

subsection \<open>Global news and the limit\<close>

lemma news_entry_empty: "news_entry (JDict []) = Inr empty_entry"
  by (simp add: news_entry_def next_iter_def py_or_def empty_entry_def)

lemma map_exn_length: "map_exn f xs = Inr ys \<Longrightarrow> length ys = length xs"
  by (simp add: map_exn_Inr list_all2_lengthD)

text \<open>
  Claim C6, as the code has it. For \<^verbatim>\<open>get_news\<close> with no channel id (or an empty
  one) the global-posts endpoint is called with the given limit, 10 when none is given. When
  the limit is a non-negative integer and the upstream answers with a list, the result is
  the reshaping of the first \<open>limit\<close> posts, so a returned list has length at most the
  limit. An upstream result that is not a list yields the empty list, not a failure.
\<close>

theorem get_news_global:
  assumes c: "get_client env = Inr c"
    and cid: "\<not> truthy (dict_get arguments ''channel_id'' JNull)"
    and limit: "dict_get arguments ''limit'' (JInt 10) = limit"
    and req: "req = api_request c [Lit ''/api/posts'']
                      (Some [(''limit'', limit), (''offset'', JInt 0)])"
  shows "fst (handle_tool frames env up ''get_news'' arguments) = [HttpGet req] \<and>
         (map_of arguments ''limit'' = None \<longrightarrow> limit = JInt 10) \<and>
         (\<forall>data posts n.
            up req = Inr data \<and> unwrap data = JList posts \<and> limit = JInt n \<and> 0 \<le> n \<longrightarrow>
            snd (handle_tool frames env up ''get_news'' arguments) =
              bind_exn (map_exn news_entry (take (nat n) posts))
                (\<lambda>result. Inr (json_dumps (JList result) (Some 2) False)) \<and>
            (\<forall>result i ds.
               snd (handle_tool frames env up ''get_news'' arguments) =
                 Inr (json_dumps (JList result) i ds) \<longrightarrow>
               int (length result) \<le> n)) \<and>
         (\<forall>data.
            up req = Inr data \<and> (\<forall>posts. unwrap data \<noteq> JList posts) \<longrightarrow>
            snd (handle_tool frames env up ''get_news'' arguments) =
              Inr (json_dumps (JList []) (Some 2) False))"
proof -
  have h: "handle_tool frames env up ''get_news'' arguments =
             ([HttpGet req],
              bind_exn (up req) (\<lambda>data.
              bind_exn (case unwrap data of JList xs \<Rightarrow> slice_to xs limit | _ \<Rightarrow> Inr []) (\<lambda>ps.
              bind_exn (map_exn news_entry ps) (\<lambda>result.
              Inr (json_dumps (JList result) (Some 2) False)))))"
    using cid limit req by (simp add: handle_get_news[where frames=frames and up=up and arguments=arguments, OF c] Let_def)
  have a: "fst (handle_tool frames env up ''get_news'' arguments) = [HttpGet req]"
    by (simp add: h)
  have b: "limit = JInt 10" if "map_of arguments ''limit'' = None"
    using that limit by (simp add: dict_get_def)
  have d1: "snd (handle_tool frames env up ''get_news'' arguments) =
              bind_exn (map_exn news_entry (take (nat n) posts))
                (\<lambda>result. Inr (json_dumps (JList result) (Some 2) False))"
    if "up req = Inr data" "unwrap data = JList posts" "limit = JInt n" "0 \<le> n"
    for data posts n
    using that by (simp add: h)
  have d2: "int (length result) \<le> n"
    if "up req = Inr data" "unwrap data = JList posts" "limit = JInt n" "0 \<le> n"
       "snd (handle_tool frames env up ''get_news'' arguments) = Inr (json_dumps (JList result) i ds)"
    for data posts n result i ds
  proof -
    from that(5) d1[OF that(1-4)]
    have "map_exn news_entry (take (nat n) posts) = Inr result"
      by (auto simp: bind_exn_Inr_iff)
    then have "length result = length (take (nat n) posts)" by (rule map_exn_length)
    with that(4) show ?thesis by simp
  qed
  have e: "snd (handle_tool frames env up ''get_news'' arguments) =
              Inr (json_dumps (JList []) (Some 2) False)"
    if "up req = Inr data" "\<forall>posts. unwrap data \<noteq> JList posts" for data
    using that by (cases "unwrap data") (simp_all add: h)
  from a b d1 d2 e show ?thesis by blast
qed

theorem get_news_global_witness:
  "get_client env_ok = Inr client_ok \<and>
   \<not> truthy (dict_get [(''limit'', JInt 1)] ''channel_id'' JNull) \<and>
   dict_get [(''limit'', JInt 1)] ''limit'' (JInt 10) = JInt 1 \<and>
   fst (handle_tool sample_frames env_ok up_two_posts ''get_news'' [(''limit'', JInt 1)]) =
     [HttpGet (api_request client_ok [Lit ''/api/posts'']
                 (Some [(''limit'', JInt 1), (''offset'', JInt 0)]))] \<and>
   snd (handle_tool sample_frames env_ok up_two_posts ''get_news'' [(''limit'', JInt 1)]) =
     Inr (json_dumps (JList [empty_entry]) (Some 2) False) \<and>
   int (length [empty_entry]) \<le> 1 \<and>
   dict_get [] ''limit'' (JInt 10) = JInt 10 \<and>
   snd (handle_tool sample_frames env_ok up_not_list ''get_news'' []) =
     Inr (json_dumps (JList []) (Some 2) False)"
proof -
  let ?args = "[(''limit'', JInt 1)]"
  let ?req = "api_request client_ok [Lit ''/api/posts'']
                 (Some [(''limit'', JInt 1), (''offset'', JInt 0)])"
  let ?dreq = "api_request client_ok [Lit ''/api/posts'']
                 (Some [(''limit'', JInt 10), (''offset'', JInt 0)])"
  have cid: "\<not> truthy (dict_get ?args ''channel_id'' JNull)" by (simp add: dict_get_def)
  have lim: "dict_get ?args ''limit'' (JInt 10) = JInt 1" by (simp add: dict_get_def)
  have cid0: "\<not> truthy (dict_get [] ''channel_id'' JNull)" by (simp add: dict_get_def)
  have lim0: "dict_get [] ''limit'' (JInt 10) = JInt 10" by (simp add: dict_get_def)
  note t = get_news_global[where frames=sample_frames and up=up_two_posts,
             OF get_client_env_ok cid lim refl]
  note t0 = get_news_global[where frames=sample_frames and up=up_not_list,
             OF get_client_env_ok cid0 lim0 refl]
  have u: "up_two_posts ?req = Inr (JList [JDict [], JDict []])"
    by (simp add: up_two_posts_def)
  have w: "unwrap (JList [JDict [], JDict []]) = JList [JDict [], JDict []]" by simp
  from t have a: "fst (handle_tool sample_frames env_ok up_two_posts ''get_news'' ?args) = [HttpGet ?req]"
    by blast
  note t3 = t[THEN conjunct2, THEN conjunct2, THEN conjunct1, rule_format,
              of "JList [JDict [], JDict []]" "[JDict [], JDict []]" 1]
  from t3 u w have "snd (handle_tool sample_frames env_ok up_two_posts ''get_news'' ?args) =
      bind_exn (map_exn news_entry (take (nat 1) [JDict [], JDict []]))
        (\<lambda>result. Inr (json_dumps (JList result) (Some 2) False))"
    by simp
  then have b: "snd (handle_tool sample_frames env_ok up_two_posts ''get_news'' ?args) =
      Inr (json_dumps (JList [empty_entry]) (Some 2) False)"
    by (simp add: news_entry_empty)
  have u0: "up_not_list ?dreq = Inr (JDict [(''message'', JStr ''maintenance'')])"
    by (simp add: up_not_list_def)
  have w0: "\<forall>posts. unwrap (JDict [(''message'', JStr ''maintenance'')]) \<noteq> JList posts"
    by simp
  note t4 = t0[THEN conjunct2, THEN conjunct2, THEN conjunct2, rule_format,
               of "JDict [(''message'', JStr ''maintenance'')]"]
  from t4 u0 w0 have e: "snd (handle_tool sample_frames env_ok up_not_list ''get_news'' []) =
     Inr (json_dumps (JList []) (Some 2) False)" by simp
  from a b e cid lim lim0 get_client_env_ok show ?thesis by simp
qed

text \<open>
  The bound fails for a negative limit: \<^verbatim>\<open>posts[:-1]\<close> drops the last post only, so
  with two posts upstream and limit \<open>-1\<close> one post is returned.
\<close>

theorem get_news_negative_limit:
  "snd (handle_tool sample_frames env_ok up_two_posts ''get_news'' [(''limit'', JInt (- 1))]) =
     Inr (json_dumps (JList [empty_entry]) (Some 2) False) \<and>
   \<not> int (length [empty_entry]) \<le> - 1"
  by (simp add: handle_get_news[where frames=sample_frames, OF get_client_env_ok] Let_def dict_get_def up_two_posts_def
        news_entry_empty)

subsection \<open>Truncation of teasers and page contents\<close>

lemma news_result_nth:
  assumes "get_client env = Inr c"
    and "fst (handle_tool frames env up ''get_news'' arguments) = [HttpGet req]"
    and "up req = Inr data"
    and "unwrap data = JList posts"
    and "snd (handle_tool frames env up ''get_news'' arguments) = Inr (json_dumps (JList result) i ds)"
    and "j < length result"
  shows "j < length posts \<and> news_entry (posts ! j) = Inr (result ! j)"
proof -
  note h = handle_get_news[where frames=frames and up=up and arguments=arguments, OF assms(1)]
  from assms(2,3,4,5) obtain ps where ps:
    "slice_to posts (dict_get arguments ''limit'' (JInt 10)) = Inr ps"
    "map_exn news_entry ps = Inr result"
    by (auto simp: h Let_def bind_exn_Inr_iff split: if_splits)
  from ps(1) obtain m where m: "ps = take m posts" using slice_to_take by blast
  from ps(2) have l: "list_all2 (\<lambda>p r. news_entry p = Inr r) ps result"
    by (simp add: map_exn_Inr)
  then have len: "length ps = length result" by (rule list_all2_lengthD)
  with assms(6) have j: "j < length ps" by simp
  from list_all2_nthD[OF l j] have "news_entry (ps ! j) = Inr (result ! j)" .
  moreover from j m have "ps ! j = posts ! j" "j < length posts" by simp_all
  ultimately show ?thesis by simp
qed

text \<open>
  Claim C7. In the output of \<^verbatim>\<open>get_news\<close> the teaser of a post is cut to its first 200
  characters, so a teaser of length 500 is emitted with exactly 200; in the output of
  \<^verbatim>\<open>get_page\<close> the content is cut to its first 5000 characters, so a content of
  length 10000 is emitted with exactly 5000. Shorter values are emitted unchanged.
\<close>

theorem teaser_content_truncation:
  "(get_client env = Inr c \<and>
    fst (handle_tool frames env up ''get_news'' arguments) = [HttpGet req] \<and>
    up req = Inr data \<and> unwrap data = JList posts \<and>
    snd (handle_tool frames env up ''get_news'' arguments) = Inr (json_dumps (JList result) i ds) \<and>
    j < length result \<and> posts ! j = JDict pkvs \<and>
    map_of pkvs ''contents'' = Some (JDict ((k, JDict lkvs) # others)) \<and> k \<noteq> [] \<and>
    dict_get lkvs ''teaser'' (JStr []) = JStr s \<longrightarrow>
      result ! j = JDict [(''id'', dict_get pkvs ''id'' (JStr [])),
                          (''title'', dict_get lkvs ''title'' (JStr [])),
                          (''teaser'', JStr (take 200 s)),
                          (''published'', dict_get pkvs ''publishedAt'' (JStr [])),
                          (''locale'', JStr k)] \<and>
      (length s = 500 \<longrightarrow> length (take 200 s) = 200) \<and>
      (length s \<le> 200 \<longrightarrow> take 200 s = s)) \<and>
   (get_client penv = Inr pc \<and>
    map_of pargs ''page_id'' = Some pid \<and>
    pup (api_request pc [Lit ''/api/pages/'', interp pid] None) = Inr (JDict qkvs) \<and>
    map_of qkvs ''contents'' = Some (JDict ((pk, JDict mkvs) # pothers)) \<and> pk \<noteq> [] \<and>
    dict_get mkvs ''content'' (JStr []) = JStr t \<longrightarrow>
      snd (handle_tool frames penv pup ''get_page'' pargs) =
        Inr (json_dumps
               (JDict [(''id'', dict_get qkvs ''id'' (JStr [])),
                       (''title'', dict_get mkvs ''title'' (JStr [])),
                       (''content'', JStr (take 5000 t)),
                       (''locale'', JStr pk),
                       (''updated'', dict_get qkvs ''updatedAt'' (JStr []))])
               (Some 2) False) \<and>
      (length t = 10000 \<longrightarrow> length (take 5000 t) = 5000) \<and>
      (length t \<le> 5000 \<longrightarrow> take 5000 t = t))"
proof (intro conjI impI)
  assume a: "get_client env = Inr c \<and>
    fst (handle_tool frames env up ''get_news'' arguments) = [HttpGet req] \<and>
    up req = Inr data \<and> unwrap data = JList posts \<and>
    snd (handle_tool frames env up ''get_news'' arguments) = Inr (json_dumps (JList result) i ds) \<and>
    j < length result \<and> posts ! j = JDict pkvs \<and>
    map_of pkvs ''contents'' = Some (JDict ((k, JDict lkvs) # others)) \<and> k \<noteq> [] \<and>
    dict_get lkvs ''teaser'' (JStr []) = JStr s"
  then have "news_entry (posts ! j) = Inr (result ! j)"
    using news_result_nth[where frames=frames and env=env and c=c and up=up
            and arguments=arguments and req=req and data=data and posts=posts
            and result=result and i=i and ds=ds and j=j] by blast
  moreover from a have "news_entry (posts ! j) =
      Inr (JDict [(''id'', dict_get pkvs ''id'' (JStr [])),
                  (''title'', dict_get lkvs ''title'' (JStr [])),
                  (''teaser'', JStr (take 200 s)),
                  (''published'', dict_get pkvs ''publishedAt'' (JStr [])),
                  (''locale'', JStr k)])"
    using news_entry_localized[of pkvs k lkvs others s] by simp
  ultimately show "result ! j = JDict [(''id'', dict_get pkvs ''id'' (JStr [])),
                          (''title'', dict_get lkvs ''title'' (JStr [])),
                          (''teaser'', JStr (take 200 s)),
                          (''published'', dict_get pkvs ''publishedAt'' (JStr [])),
                          (''locale'', JStr k)]" by simp
next
  assume b: "get_client penv = Inr pc \<and>
    map_of pargs ''page_id'' = Some pid \<and>
    pup (api_request pc [Lit ''/api/pages/'', interp pid] None) = Inr (JDict qkvs) \<and>
    map_of qkvs ''contents'' = Some (JDict ((pk, JDict mkvs) # pothers)) \<and> pk \<noteq> [] \<and>
    dict_get mkvs ''content'' (JStr []) = JStr t"
  then have "snd (handle_tool frames penv pup ''get_page'' pargs) =
      bind_exn (page_entry (JDict qkvs)) (\<lambda>d. Inr (json_dumps d (Some 2) False))"
    by (simp add: handle_get_page[where frames=frames and env=penv and c=pc and arguments=pargs
                    and pid=pid and up=pup and page="JDict qkvs"])
  moreover from b have "page_entry (JDict qkvs) =
      Inr (JDict [(''id'', dict_get qkvs ''id'' (JStr [])),
                  (''title'', dict_get mkvs ''title'' (JStr [])),
                  (''content'', JStr (take 5000 t)),
                  (''locale'', JStr pk),
                  (''updated'', dict_get qkvs ''updatedAt'' (JStr []))])"
    using page_entry_localized[of qkvs pk mkvs pothers t] by simp
  ultimately show "snd (handle_tool frames penv pup ''get_page'' pargs) =
        Inr (json_dumps
               (JDict [(''id'', dict_get qkvs ''id'' (JStr [])),
                       (''title'', dict_get mkvs ''title'' (JStr [])),
                       (''content'', JStr (take 5000 t)),
                       (''locale'', JStr pk),
                       (''updated'', dict_get qkvs ''updatedAt'' (JStr []))])
               (Some 2) False)" by simp
qed simp_all

theorem teaser_content_truncation_witness:
  "length (replicate 500 (CHR ''x'')) = 500 \<and>
   snd (handle_tool sample_frames env_ok up_post500 ''get_news'' []) =
     Inr (json_dumps
            (JList [JDict [(''id'', JStr ''p500''), (''title'', JStr ''Lang''),
                           (''teaser'', JStr (replicate 200 (CHR ''x''))),
                           (''published'', JStr ''2024-02-02''), (''locale'', JStr ''de'')]])
            (Some 2) False) \<and>
   length (replicate 200 (CHR ''x'')) = 200 \<and>
   length (replicate 10000 (CHR ''y'')) = 10000 \<and>
   snd (handle_tool sample_frames env_ok up_page10000 ''get_page'' [(''page_id'', JStr ''7'')]) =
     Inr (json_dumps
            (JDict [(''id'', JStr ''7''), (''title'', JStr ''Lang''),
                    (''content'', JStr (replicate 5000 (CHR ''y''))),
                    (''locale'', JStr ''de''), (''updated'', JStr ''2024-03-03'')])
            (Some 2) False) \<and>
   length (replicate 5000 (CHR ''y'')) = 5000"
proof -
  let ?req = "api_request client_ok [Lit ''/api/posts'']
                (Some [(''limit'', JInt 10), (''offset'', JInt 0)])"
  let ?lkvs = "[(''title'', JStr ''Lang''), (''teaser'', JStr (replicate 500 (CHR ''x'')))]"
  let ?pkvs = "[(''id'', JStr ''p500''), (''contents'', JDict [(''de'', JDict ?lkvs)]),
                (''publishedAt'', JStr ''2024-02-02'')]"
  let ?mkvs = "[(''title'', JStr ''Lang''), (''content'', JStr (replicate 10000 (CHR ''y'')))]"
  let ?qkvs = "[(''id'', JStr ''7''), (''contents'', JDict [(''de'', JDict ?mkvs)]),
                (''updatedAt'', JStr ''2024-03-03'')]"
  let ?entry = "JDict [(''id'', JStr ''p500''), (''title'', JStr ''Lang''),
                       (''teaser'', JStr (replicate 200 (CHR ''x''))),
                       (''published'', JStr ''2024-02-02''), (''locale'', JStr ''de'')]"
  have e: "news_entry (JDict ?pkvs) = Inr ?entry"
    using news_entry_localized[of ?pkvs "''de''" ?lkvs "[]" "replicate 500 (CHR ''x'')"]
    by (simp add: dict_get_def)
  have f: "fst (handle_tool sample_frames env_ok up_post500 ''get_news'' []) = [HttpGet ?req]"
    by (simp add: handle_get_news[where frames=sample_frames, OF get_client_env_ok] Let_def dict_get_def)
  have u: "up_post500 ?req = Inr (JList [JDict ?pkvs])"
    by (simp add: up_post500_def post500_def)
  have w: "unwrap (JList [JDict ?pkvs]) = JList [JDict ?pkvs]" by simp
  have out: "snd (handle_tool sample_frames env_ok up_post500 ''get_news'' []) =
               Inr (json_dumps (JList [?entry]) (Some 2) False)"
    by (simp add: handle_get_news[where frames=sample_frames, OF get_client_env_ok] Let_def dict_get_def[of "[]"]
          up_post500_def post500_def e)
  have pu: "up_page10000 (api_request client_ok [Lit ''/api/pages/'', interp (JStr ''7'')] None)
              = Inr (JDict ?qkvs)"
    by (simp add: up_page10000_def page10000_def)
  note t = teaser_content_truncation[of env_ok client_ok sample_frames up_post500 "[]" ?req "JList [JDict ?pkvs]"
             "[JDict ?pkvs]" "[?entry]" "Some 2" False 0 ?pkvs "''de''" ?lkvs "[]"
             "replicate 500 (CHR ''x'')"
             env_ok client_ok "[(''page_id'', JStr ''7'')]" "JStr ''7''" up_page10000
             ?qkvs "''de''" ?mkvs "[]" "replicate 10000 (CHR ''y'')"]
  from t[THEN conjunct2] get_client_env_ok pu
  have p: "snd (handle_tool sample_frames env_ok up_page10000 ''get_page'' [(''page_id'', JStr ''7'')]) =
     Inr (json_dumps
            (JDict [(''id'', JStr ''7''), (''title'', JStr ''Lang''),
                    (''content'', JStr (replicate 5000 (CHR ''y''))),
                    (''locale'', JStr ''de''), (''updated'', JStr ''2024-03-03'')])
            (Some 2) False)"
    by (simp add: dict_get_def)
  from t[THEN conjunct1] get_client_env_ok f u w out
  have "[?entry] ! 0 = ?entry" by simp
  with out p show ?thesis by simp
qed

subsection \<open>Listing channels\<close>

lemma map_exn_append:
  "map_exn f (xs @ ys) =
     bind_exn (map_exn f xs) (\<lambda>as. bind_exn (map_exn f ys) (\<lambda>bs. Inr (as @ bs)))"
proof (induction xs)
  case Nil
  show ?case by (cases "map_exn f ys") simp_all
next
  case (Cons x xs)
  show ?case
    by (cases "f x"; cases "map_exn f xs"; cases "map_exn f ys") (simp_all add: Cons.IH)
qed

lemma is_node_dict: "is_node n \<Longrightarrow> \<exists>kvs. n = JDict kvs"
  by (cases n) simp_all

lemma is_news_type:
  "(dict_get kvs ''type'' JNull = JStr ''news'') = is_news (JDict kvs)"
  by (simp add: dict_get_def split: option.splits)

lemma extract_channels_list:
  "extract_channels frames (JList cs) result =
     (case frames of
        0 \<Rightarrow> Inl (RecursionError ''maximum recursion depth exceeded'')
      | Suc k \<Rightarrow> extract_for k cs (case result of None \<Rightarrow> [] | Some r \<Rightarrow> r))"
  by (cases frames) simp_all

lemma extract_for_node:
  assumes "is_node n"
  shows "extract_for frames (n # ns) result =
           bind_exn (if is_news n
                     then bind_exn (channel_entry n) (\<lambda>d. Inr (result @ [d]))
                     else Inr result) (\<lambda>result1.
           bind_exn (if node_children n = [] then Inr result1
                     else extract_channels frames (JList (node_children n)) (Some result1))
             (\<lambda>result2.
           extract_for frames ns result2))"
proof -
  from assms obtain kvs where n: "n = JDict kvs" using is_node_dict by blast
  let ?first = "if is_news n then bind_exn (channel_entry n) (\<lambda>d. Inr (result @ [d]))
                else Inr result"
  have step: "extract_for frames (n # ns) result =
           bind_exn ?first (\<lambda>result1.
           bind_exn (if truthy (dict_get kvs ''children'' (JList []))
                     then extract_channels frames (dict_get kvs ''children'' (JList []))
                            (Some result1)
                     else Inr result1) (\<lambda>result2.
           extract_for frames ns result2))"
    by (simp add: n py_get_dict is_news_type del: py_get.simps extract_channels.simps is_news.simps)
  have kids: "(if truthy (dict_get kvs ''children'' (JList []))
               then extract_channels frames (dict_get kvs ''children'' (JList [])) (Some r)
               else Inr r) =
              (if node_children n = [] then Inr r
               else extract_channels frames (JList (node_children n)) (Some r))" for r
  proof (cases "map_of kvs ''children''")
    case None
    then show ?thesis by (simp add: n dict_get_def)
  next
    case (Some v)
    with assms n obtain cs where "v = JList cs" by (cases v) simp_all
    with Some show ?thesis by (simp add: n dict_get_def del: extract_channels.simps)
  qed
  show ?thesis unfolding step kids ..
qed

lemma nesting_pos: "cs \<noteq> [] \<Longrightarrow> 0 < nesting cs"
  by (cases cs) simp_all

lemma extract_for_preorder:
  "list_all is_node (preorder items) \<Longrightarrow> nesting items \<le> Suc frames \<Longrightarrow>
   extract_for frames items result =
     bind_exn (map_exn channel_entry (filter is_news (preorder items)))
       (\<lambda>ds. Inr (result @ ds))"
proof (induction items arbitrary: frames result rule: preorder.induct)
  case 1
  show ?case by simp
next
  case (2 n ns)
  from "2.prems"(1) have n: "is_node n"
    and kids: "list_all is_node (preorder (node_children n))"
    and rest: "list_all is_node (preorder ns)" by simp_all
  from "2.prems"(2) have dk: "nesting (node_children n) \<le> frames"
    and dr: "nesting ns \<le> Suc frames" by simp_all
  let ?cs = "node_children n"
  let ?mc = "map_exn channel_entry (filter is_news (preorder ?cs))"
  let ?mr = "map_exn channel_entry (filter is_news (preorder ns))"
  note ih2 = "2.IH"(2)[OF rest dr]
  have ih1: "(if ?cs = [] then Inr r
              else extract_channels frames (JList ?cs) (Some r)) =
             bind_exn ?mc (\<lambda>ds. Inr (r @ ds))" for r
  proof (cases "?cs = []")
    case True
    then show ?thesis by simp
  next
    case False
    with dk nesting_pos[of ?cs] obtain k where k: "frames = Suc k" by (cases frames) auto
    with dk have "nesting ?cs \<le> Suc k" by simp
    from "2.IH"(1)[OF kids this] False k show ?thesis by simp
  qed
  show ?case
  proof (cases "is_news n")
    case False
    then show ?thesis
      by (cases ?mc; cases ?mr)
         (simp_all add: extract_for_node[OF n] ih1 ih2 map_exn_append
            del: extract_for.simps(2) extract_channels.simps)
  next
    case True
    then show ?thesis
      by (cases "channel_entry n"; cases ?mc; cases ?mr)
         (simp_all add: extract_for_node[OF n] ih1 ih2 map_exn_append
            del: extract_for.simps(2) extract_channels.simps)
  qed
qed

lemma extract_for_sound:
  "list_all is_node (preorder items) \<Longrightarrow> extract_for frames items result = Inr r \<Longrightarrow>
   \<exists>ds. map_exn channel_entry (filter is_news (preorder items)) = Inr ds \<and> r = result @ ds"
proof (induction items arbitrary: frames result r rule: preorder.induct)
  case 1
  then show ?case by simp
next
  case (2 n ns)
  from "2.prems"(1) have n: "is_node n"
    and kids: "list_all is_node (preorder (node_children n))"
    and rest: "list_all is_node (preorder ns)" by simp_all
  let ?cs = "node_children n"
  let ?own = "if is_news n then [n] else []"
  from "2.prems"(2)[unfolded extract_for_node[OF n] bind_exn_Inr_iff]
  obtain r1 r2 where
    first: "(if is_news n then bind_exn (channel_entry n) (\<lambda>d. Inr (result @ [d]))
             else Inr result) = Inr r1"
    and mid: "(if ?cs = [] then Inr r1
               else extract_channels frames (JList ?cs) (Some r1)) = Inr r2"
    and last: "extract_for frames ns r2 = Inr r" by blast
  from first obtain d1 where d1: "map_exn channel_entry ?own = Inr d1" "r1 = result @ d1"
    by (cases "is_news n") (auto simp: bind_exn_Inr_iff)
  have "\<exists>d2. map_exn channel_entry (filter is_news (preorder ?cs)) = Inr d2 \<and> r2 = r1 @ d2"
  proof (cases "?cs = []")
    case True
    with mid show ?thesis by simp
  next
    case False
    with mid obtain k where "extract_for k ?cs r1 = Inr r2"
      by (cases frames) (simp_all del: extract_for.simps)
    from "2.IH"(1)[OF kids this] show ?thesis .
  qed
  then obtain d2 where
    d2: "map_exn channel_entry (filter is_news (preorder ?cs)) = Inr d2" "r2 = r1 @ d2" by blast
  from "2.IH"(2)[OF rest last] obtain d3 where
    d3: "map_exn channel_entry (filter is_news (preorder ns)) = Inr d3" "r = r2 @ d3" by blast
  have "filter is_news (preorder (n # ns)) =
          ?own @ filter is_news (preorder ?cs) @ filter is_news (preorder ns)" by simp
  then have "map_exn channel_entry (filter is_news (preorder (n # ns))) = Inr (d1 @ d2 @ d3)"
    by (simp only: map_exn_append d1 d2 d3 bind_exn.simps)
  with d1 d2 d3 show ?case by simp
qed

lemma handle_list_channels:
  assumes "get_client env = Inr c"
    and "map_of arguments ''space_id'' = Some sid"
    and "up (api_request c [Lit ''/api/spaces/'', interp sid, Lit ''/news''] None) = Inr data"
    and "unwrap data = JList items"
  shows "snd (handle_tool frames env up ''list_channels'' arguments) =
           bind_exn (extract_channels frames (JList items) None)
             (\<lambda>channels. Inr (json_dumps (JList channels) (Some 2) False))"
  using assms
  by (simp add: handle_tool_def get_space_news_def client_get_events then_pure_def
           del: extract_for.simps extract_channels.simps)

lemma list_channels_result:
  assumes "get_client env = Inr c"
    and "map_of arguments ''space_id'' = Some sid"
    and "up (api_request c [Lit ''/api/spaces/'', interp sid, Lit ''/news''] None) = Inr data"
    and "unwrap data = JList items"
    and "list_all is_node (preorder items)"
    and "0 < frames"
    and "nesting items \<le> frames"
  shows "snd (handle_tool frames env up ''list_channels'' arguments) =
           bind_exn (map_exn channel_entry (filter is_news (preorder items)))
             (\<lambda>ds. Inr (json_dumps (JList ds) (Some 2) False))"
proof -
  from assms(6) obtain k where k: "frames = Suc k" by (cases frames) auto
  with assms(7) have deep: "nesting items \<le> Suc k" by simp
  have e: "extract_channels frames (JList items) None = extract_for k items []"
    by (simp add: k del: extract_for.simps)
  have "snd (handle_tool frames env up ''list_channels'' arguments) =
           bind_exn (extract_for k items [])
             (\<lambda>channels. Inr (json_dumps (JList channels) (Some 2) False))"
    unfolding e[symmetric]
    by (rule handle_list_channels[where frames=frames and env=env and c=c
               and arguments=arguments and sid=sid and up=up and data=data and items=items,
               OF assms(1) assms(2) assms(3) assms(4)])
  also have "\<dots> = bind_exn (map_exn channel_entry (filter is_news (preorder items)))
             (\<lambda>ds. Inr (json_dumps (JList ds) (Some 2) False))"
    by (cases "map_exn channel_entry (filter is_news (preorder items))")
       (simp_all add: extract_for_preorder[OF assms(5) deep])
  finally show ?thesis .
qed

lemma list_channels_sound:
  assumes "get_client env = Inr c"
    and "map_of arguments ''space_id'' = Some sid"
    and "up (api_request c [Lit ''/api/spaces/'', interp sid, Lit ''/news''] None) = Inr data"
    and "unwrap data = JList items"
    and "list_all is_node (preorder items)"
    and "snd (handle_tool frames env up ''list_channels'' arguments) =
           Inr (json_dumps (JList ds) i df)"
  shows "map_exn channel_entry (filter is_news (preorder items)) = Inr ds"
proof -
  have h: "snd (handle_tool frames env up ''list_channels'' arguments) =
           bind_exn (extract_channels frames (JList items) None)
             (\<lambda>channels. Inr (json_dumps (JList channels) (Some 2) False))"
    by (simp add: handle_list_channels[where frames=frames and env=env and c=c
                    and arguments=arguments and sid=sid and up=up and data=data and items=items]
          assms(1-4) del: extract_for.simps extract_channels.simps)
  from assms(6)[unfolded h bind_exn_Inr_iff]
  have e: "extract_channels frames (JList items) None = Inr ds" by auto
  then obtain k where "extract_for k items [] = Inr ds"
    by (cases frames) (simp_all del: extract_for.simps)
  from extract_for_sound[OF assms(5) this] show ?thesis by simp
qed

lemma list_all_map_exn:
  "list_all (\<lambda>x. \<exists>y. f x = Inr y) xs \<Longrightarrow> \<exists>ys. map_exn f xs = Inr ys"
  by (rule map_exn_success) (simp add: list_all_iff)

text \<open>
  Claim C2, as the code has it. For every finite channel tree, whose nodes are objects with
  their children in a list and whose news nodes have contents the adapter can read, and
  whose nesting depth is at most the number of calls the interpreter's recursion limit
  still allows, \<^verbatim>\<open>list_channels\<close> returns a flat list with exactly one entry for each
  node of type "news", at every depth, in depth-first order: the entries correspond one to
  one, in order, to the news nodes of \<open>preorder\<close>, where a node precedes the nodes
  below it whether it is a news node or not.
\<close>

theorem list_channels_preorder:
  assumes c: "get_client env = Inr c"
    and sid: "map_of arguments ''space_id'' = Some sid"
    and u: "up (api_request c [Lit ''/api/spaces/'', interp sid, Lit ''/news''] None) = Inr data"
    and d: "unwrap data = JList items"
    and wf: "list_all is_node (preorder items)"
    and ok: "list_all (\<lambda>n. \<exists>d. channel_entry n = Inr d) (filter is_news (preorder items))"
    and fr: "0 < frames"
    and deep: "nesting items \<le> frames"
  shows "\<exists>ds. snd (handle_tool frames env up ''list_channels'' arguments) =
                Inr (json_dumps (JList ds) (Some 2) False) \<and>
              list_all2 (\<lambda>n d. channel_entry n = Inr d) (filter is_news (preorder items)) ds"
proof -
  from list_all_map_exn[OF ok] obtain ds where
    ds: "map_exn channel_entry (filter is_news (preorder items)) = Inr ds" ..
  then have "list_all2 (\<lambda>n d. channel_entry n = Inr d) (filter is_news (preorder items)) ds"
    by (simp add: map_exn_Inr)
  moreover have "snd (handle_tool frames env up ''list_channels'' arguments) =
                   Inr (json_dumps (JList ds) (Some 2) False)"
    by (simp add: list_channels_result[where frames=frames and env=env and c=c
                    and arguments=arguments and sid=sid and up=up and data=data and items=items]
          c sid u d wf fr deep ds)
  ultimately show ?thesis by blast
qed

lemma preorder_sample_tree:
  "preorder sample_tree = [folder_outer, ch_alpha, ch_beta, folder_inner, ch_gamma, ch_delta]"
  by (simp add: sample_tree_def folder_outer_def folder_inner_def ch_alpha_def ch_beta_def
        ch_gamma_def ch_delta_def)

lemma news_sample_tree:
  "filter is_news (preorder sample_tree) = [ch_alpha, ch_beta, ch_gamma, ch_delta]"
  unfolding preorder_sample_tree
  by (simp add: folder_outer_def folder_inner_def ch_alpha_def ch_beta_def
        ch_gamma_def ch_delta_def)

lemma entries_sample_tree:
  "channel_entry ch_alpha =
     Inr (JDict [(''name'', JStr ''Alpha''), (''installation_id'', JStr ''ia'')])"
  "channel_entry ch_beta =
     Inr (JDict [(''name'', JStr ''Beta''), (''installation_id'', JStr ''ib'')])"
  "channel_entry ch_gamma =
     Inr (JDict [(''name'', JStr []), (''installation_id'', JStr [])])"
  "channel_entry ch_delta =
     Inr (JDict [(''name'', JStr ''Delta''), (''installation_id'', JStr ''id4'')])"
  by (simp_all add: channel_entry_def next_iter_def ch_alpha_def ch_beta_def ch_gamma_def
        ch_delta_def)

lemma nesting_sample_tree: "nesting sample_tree = 3"
  by (simp add: sample_tree_def folder_outer_def folder_inner_def ch_alpha_def ch_beta_def
        ch_gamma_def ch_delta_def)

theorem list_channels_preorder_witness:
  "get_client env_ok = Inr client_ok \<and>
   list_all is_node (preorder sample_tree) \<and>
   filter is_news (preorder sample_tree) = [ch_alpha, ch_beta, ch_gamma, ch_delta] \<and>
   0 < sample_frames \<and> nesting sample_tree \<le> sample_frames \<and>
   snd (handle_tool sample_frames env_ok up_tree ''list_channels'' [(''space_id'', JStr ''s1'')]) =
     Inr (json_dumps
            (JList [JDict [(''name'', JStr ''Alpha''), (''installation_id'', JStr ''ia'')],
                    JDict [(''name'', JStr ''Beta''), (''installation_id'', JStr ''ib'')],
                    JDict [(''name'', JStr []), (''installation_id'', JStr [])],
                    JDict [(''name'', JStr ''Delta''), (''installation_id'', JStr ''id4'')]])
            (Some 2) False)"
proof -
  have sid: "map_of [(''space_id'', JStr ''s1'')] ''space_id'' = Some (JStr ''s1'')" by simp
  have u: "up_tree (api_request client_ok [Lit ''/api/spaces/'', interp (JStr ''s1''), Lit ''/news''] None)
             = Inr (JDict [(''data'', JList sample_tree)])"
    by (simp add: up_tree_def)
  have d: "unwrap (JDict [(''data'', JList sample_tree)]) = JList sample_tree" by simp
  have wf: "list_all is_node (preorder sample_tree)"
    unfolding preorder_sample_tree
    by (simp add: folder_outer_def folder_inner_def ch_alpha_def ch_beta_def
          ch_gamma_def ch_delta_def)
  have ok: "list_all (\<lambda>n. \<exists>d. channel_entry n = Inr d) (filter is_news (preorder sample_tree))"
    unfolding news_sample_tree by (simp add: entries_sample_tree)
  have fr: "0 < sample_frames" by (simp add: sample_frames_def)
  have deep: "nesting sample_tree \<le> sample_frames"
    by (simp add: nesting_sample_tree sample_frames_def)
  from list_channels_preorder[where frames=sample_frames and up=up_tree,
         OF get_client_env_ok sid u d wf ok fr deep]
  have "snd (handle_tool sample_frames env_ok up_tree ''list_channels'' [(''space_id'', JStr ''s1'')]) =
     Inr (json_dumps
            (JList [JDict [(''name'', JStr ''Alpha''), (''installation_id'', JStr ''ia'')],
                    JDict [(''name'', JStr ''Beta''), (''installation_id'', JStr ''ib'')],
                    JDict [(''name'', JStr []), (''installation_id'', JStr [])],
                    JDict [(''name'', JStr ''Delta''), (''installation_id'', JStr ''id4'')]])
            (Some 2) False)"
    unfolding news_sample_tree
    by (auto simp: list_all2_Cons1 entries_sample_tree)
  with wf news_sample_tree get_client_env_ok fr deep show ?thesis by simp
qed

lemma preorder_nest:
  "list_all is_node (preorder [nest n ch_gamma]) \<and>
   filter is_news (preorder [nest n ch_gamma]) = [ch_gamma]"
  by (induction n) (simp_all add: ch_gamma_def)

lemma extract_for_nest:
  "extract_for frames [nest n ch_gamma] result =
     (if n \<le> frames
      then Inr (result @ [JDict [(''name'', JStr []), (''installation_id'', JStr [])]])
      else Inl (RecursionError ''maximum recursion depth exceeded''))"
proof (induction n arbitrary: frames result)
  case 0
  show ?case
    by (simp add: ch_gamma_def channel_entry_def next_iter_def)
next
  case (Suc n)
  have step: "extract_for frames [nest (Suc n) ch_gamma] result =
                bind_exn (extract_channels frames (JList [nest n ch_gamma]) (Some result))
                  (extract_for frames [])"
    by (simp del: extract_channels.simps)
  show ?case
  proof (cases frames)
    case 0
    then show ?thesis unfolding step by simp
  next
    case k: (Suc k)
    have "extract_channels frames (JList [nest n ch_gamma]) (Some result) =
            extract_for k [nest n ch_gamma] result"
      by (simp add: k del: extract_for.simps)
    then show ?thesis unfolding step by (simp add: Suc.IH k del: extract_for.simps(2))
  qed
qed

text \<open>
  The claim does not hold regardless of the nesting depth: the walk is a recursion without
  a guard, one call for each level. With 1000 calls left, the tree with one channel below
  1000 folders raises \<^verbatim>\<open>RecursionError\<close>, and no list is returned.
\<close>

theorem list_channels_too_deep:
  "list_all is_node (preorder deep_tree) \<and>
   filter is_news (preorder deep_tree) = [ch_gamma] \<and>
   channel_entry ch_gamma = Inr (JDict [(''name'', JStr []), (''installation_id'', JStr [])]) \<and>
   snd (handle_tool sample_frames env_ok up_deep ''list_channels'' [(''space_id'', JStr ''s1'')]) =
     Inl (RecursionError ''maximum recursion depth exceeded'')"
proof -
  have sid: "map_of [(''space_id'', JStr ''s1'')] ''space_id'' = Some (JStr ''s1'')" by simp
  have u: "up_deep (api_request client_ok [Lit ''/api/spaces/'', interp (JStr ''s1''), Lit ''/news''] None)
             = Inr (JList deep_tree)"
    by (simp add: up_deep_def)
  have d: "unwrap (JList deep_tree) = JList deep_tree" by simp
  have e: "extract_channels sample_frames (JList deep_tree) None =
             Inl (RecursionError ''maximum recursion depth exceeded'')"
    unfolding extract_channels_list deep_tree_def sample_frames_def
    by (simp add: extract_for_nest del: extract_for.simps nest.simps)
  have "snd (handle_tool sample_frames env_ok up_deep ''list_channels'' [(''space_id'', JStr ''s1'')]) =
          Inl (RecursionError ''maximum recursion depth exceeded'')"
    unfolding handle_list_channels[where frames=sample_frames and up=up_deep,
                OF get_client_env_ok sid u d] e
    by simp
  with preorder_nest[of 1000] entries_sample_tree(3) show ?thesis
    by (simp add: deep_tree_def)
qed

lemma py_get_title_Inr:
  "py_get v (JStr ''title'') (JStr []) = Inr t \<Longrightarrow>
     \<exists>lkvs. v = JDict lkvs \<and> t = dict_get lkvs ''title'' (JStr [])"
  by (cases v) (simp_all add: dict_get_def)

lemma bind_if: "bind_exn (if b then Inr x else Inr y) f = f (if b then x else y)"
  by simp

lemma channel_entry_fallback:
  assumes "channel_entry (JDict kvs) = Inr d"
  shows "\<exists>name iid. d = JDict [(''name'', name), (''installation_id'', iid)] \<and>
           iid = (case map_of kvs ''installationID'' of
                    Some v \<Rightarrow> v
                  | None \<Rightarrow> (case map_of kvs ''id'' of Some v \<Rightarrow> v | None \<Rightarrow> JStr [])) \<and>
           (\<forall>ckvs. dict_get kvs ''contents'' (JDict []) = JDict ckvs \<and> [] \<notin> fst ` set ckvs \<longrightarrow>
              name = (if truthy (first_locale_title (JDict ckvs))
                      then first_locale_title (JDict ckvs)
                      else (case map_of kvs ''title'' of Some v \<Rightarrow> v | None \<Rightarrow> JStr [])))"
proof -
  let ?iid = "case map_of kvs ''installationID'' of
                Some v \<Rightarrow> v
              | None \<Rightarrow> (case map_of kvs ''id'' of Some v \<Rightarrow> v | None \<Rightarrow> JStr [])"
  let ?top = "case map_of kvs ''title'' of Some v \<Rightarrow> v | None \<Rightarrow> JStr []"
  let ?contents = "dict_get kvs ''contents'' (JDict [])"
  have unf: "channel_entry (JDict kvs) =
      bind_exn (next_iter ?contents) (\<lambda>lcl.
      bind_exn (if truthy lcl
                then bind_exn (py_get ?contents lcl (JDict []))
                       (\<lambda>localized. py_get localized (JStr ''title'') (JStr []))
                else Inr (JStr [])) (\<lambda>title.
      Inr (JDict [(''name'', if truthy title then title else dict_get kvs ''title'' (JStr [])),
                  (''installation_id'',
                   dict_get kvs ''installationID'' (dict_get kvs ''id'' (JStr [])))])))"
    by (simp only: channel_entry_def py_get_dict bind_exn.simps bind_if)
  from assms[unfolded unf bind_exn_Inr_iff] obtain lcl title where
    loc: "next_iter ?contents = Inr lcl"
    and tit: "(if truthy lcl
               then bind_exn (py_get ?contents lcl (JDict []))
                      (\<lambda>localized. py_get localized (JStr ''title'') (JStr []))
               else Inr (JStr [])) = Inr title"
    and d0: "d = JDict [(''name'', if truthy title then title
                                  else dict_get kvs ''title'' (JStr [])),
                        (''installation_id'',
                         dict_get kvs ''installationID'' (dict_get kvs ''id'' (JStr [])))]"
    by blast
  from d0 have d: "d = JDict [(''name'', if truthy title then title else ?top),
                              (''installation_id'', ?iid)]"
    by (simp add: dict_get_def)
  have "title = first_locale_title (JDict ckvs)"
    if ck: "?contents = JDict ckvs" and ne: "[] \<notin> fst ` set ckvs" for ckvs
  proof (cases ckvs)
    case Nil
    with loc tit ck show ?thesis by (simp add: next_iter_dict)
  next
    case (Cons kv others)
    obtain k v where kv: "kv = (k, v)" by (cases kv)
    from ne Cons kv have k: "k \<noteq> []" by auto
    from loc ck Cons kv have l: "lcl = JStr k" by (simp add: next_iter_dict)
    with tit k ck Cons kv have "py_get v (JStr ''title'') (JStr []) = Inr title"
      by (simp add: py_get_dict dict_get_Cons del: py_get.simps)
    from py_get_title_Inr[OF this] Cons kv show ?thesis by auto
  qed
  with d show ?thesis by simp
qed

text \<open>
  Claim C9. Every entry \<^verbatim>\<open>list_channels\<close> returns belongs to a news node of the tree;
  its installation id is the node's \<^verbatim>\<open>installationID\<close>, else its \<^verbatim>\<open>id\<close>, else
  the empty string, and its name is the localized title of the first locale, else (when
  that is empty) the node's top-level \<^verbatim>\<open>title\<close>, else the empty string. Locale codes
  are taken to be non-empty.
\<close>

theorem channel_fallbacks:
  assumes c: "get_client env = Inr c"
    and sid: "map_of arguments ''space_id'' = Some sid"
    and u: "up (api_request c [Lit ''/api/spaces/'', interp sid, Lit ''/news''] None) = Inr data"
    and d: "unwrap data = JList items"
    and wf: "list_all is_node (preorder items)"
    and out: "snd (handle_tool frames env up ''list_channels'' arguments) =
                Inr (json_dumps (JList ds) i df)"
    and j: "j < length ds"
  shows "\<exists>kvs name iid.
           j < length (filter is_news (preorder items)) \<and>
           filter is_news (preorder items) ! j = JDict kvs \<and>
           map_of kvs ''type'' = Some (JStr ''news'') \<and>
           ds ! j = JDict [(''name'', name), (''installation_id'', iid)] \<and>
           iid = (case map_of kvs ''installationID'' of
                    Some v \<Rightarrow> v
                  | None \<Rightarrow> (case map_of kvs ''id'' of Some v \<Rightarrow> v | None \<Rightarrow> JStr [])) \<and>
           (\<forall>ckvs. dict_get kvs ''contents'' (JDict []) = JDict ckvs \<and> [] \<notin> fst ` set ckvs \<longrightarrow>
              name = (if truthy (first_locale_title (JDict ckvs))
                      then first_locale_title (JDict ckvs)
                      else (case map_of kvs ''title'' of Some v \<Rightarrow> v | None \<Rightarrow> JStr [])))"
proof -
  let ?news = "filter is_news (preorder items)"
  have "map_exn channel_entry ?news = Inr ds"
    by (rule list_channels_sound[where frames=frames and env=env and c=c
               and arguments=arguments and sid=sid and up=up and data=data and items=items
               and ds=ds and i=i and df=df, OF c sid u d wf out])
  then have l: "list_all2 (\<lambda>n d. channel_entry n = Inr d) ?news ds" by (simp add: map_exn_Inr)
  then have len: "length ?news = length ds" by (rule list_all2_lengthD)
  with j have jn: "j < length ?news" by simp
  from list_all2_nthD[OF l jn] have e: "channel_entry (?news ! j) = Inr (ds ! j)" .
  from jn have "?news ! j \<in> set ?news" by (rule nth_mem)
  then have news: "is_news (?news ! j)" by simp
  then obtain kvs where kvs: "?news ! j = JDict kvs" by (cases "?news ! j") simp_all
  with news have ty: "map_of kvs ''type'' = Some (JStr ''news'')" by simp
  from e kvs have "channel_entry (JDict kvs) = Inr (ds ! j)" by simp
  from channel_entry_fallback[OF this] jn kvs ty show ?thesis by blast
qed

lemma list_all_is_node_sample: "list_all is_node (preorder sample_tree)"
  unfolding preorder_sample_tree
  by (simp add: folder_outer_def folder_inner_def ch_alpha_def ch_beta_def
        ch_gamma_def ch_delta_def)

lemma up_tree_news:
  "up_tree (api_request client_ok [Lit ''/api/spaces/'', interp (JStr ''s1''), Lit ''/news''] None)
     = Inr (JDict [(''data'', JList sample_tree)])"
  by (simp add: up_tree_def)

lemma list_channels_sample:
  "snd (handle_tool sample_frames env_ok up_tree ''list_channels'' [(''space_id'', JStr ''s1'')]) =
     Inr (json_dumps (JList sample_channels) (Some 2) False)"
proof -
  have sid: "map_of [(''space_id'', JStr ''s1'')] ''space_id'' = Some (JStr ''s1'')" by simp
  have d: "unwrap (JDict [(''data'', JList sample_tree)]) = JList sample_tree" by simp
  have fr: "0 < sample_frames" by (simp add: sample_frames_def)
  have deep: "nesting sample_tree \<le> sample_frames"
    by (simp add: nesting_sample_tree sample_frames_def)
  show ?thesis
    by (simp add: list_channels_result[where frames=sample_frames and up=up_tree,
                    OF get_client_env_ok sid up_tree_news d list_all_is_node_sample fr deep]
          news_sample_tree entries_sample_tree sample_channels_def)
qed

theorem channel_fallbacks_witness:
  "get_client env_ok = Inr client_ok \<and>
   list_all is_node (preorder sample_tree) \<and>
   snd (handle_tool sample_frames env_ok up_tree ''list_channels'' [(''space_id'', JStr ''s1'')]) =
     Inr (json_dumps (JList sample_channels) (Some 2) False) \<and>
   (1::nat) < length sample_channels \<and>
   (\<exists>kvs name iid.
       1 < length (filter is_news (preorder sample_tree)) \<and>
       filter is_news (preorder sample_tree) ! 1 = JDict kvs \<and>
       map_of kvs ''type'' = Some (JStr ''news'') \<and>
       sample_channels ! 1 = JDict [(''name'', name), (''installation_id'', iid)] \<and>
       iid = (case map_of kvs ''installationID'' of
                Some v \<Rightarrow> v
              | None \<Rightarrow> (case map_of kvs ''id'' of Some v \<Rightarrow> v | None \<Rightarrow> JStr [])) \<and>
       (\<forall>ckvs. dict_get kvs ''contents'' (JDict []) = JDict ckvs \<and> [] \<notin> fst ` set ckvs \<longrightarrow>
          name = (if truthy (first_locale_title (JDict ckvs))
                  then first_locale_title (JDict ckvs)
                  else (case map_of kvs ''title'' of Some v \<Rightarrow> v | None \<Rightarrow> JStr []))))"
proof -
  have sid: "map_of [(''space_id'', JStr ''s1'')] ''space_id'' = Some (JStr ''s1'')" by simp
  have d: "unwrap (JDict [(''data'', JList sample_tree)]) = JList sample_tree" by simp
  have j: "(1::nat) < length sample_channels" by (simp add: sample_channels_def)
  from channel_fallbacks[where frames=sample_frames and up=up_tree,
         OF get_client_env_ok sid up_tree_news d list_all_is_node_sample
         list_channels_sample j]
       get_client_env_ok list_all_is_node_sample list_channels_sample j
  show ?thesis by blast
qed

end
